theory Spec2Isabelle
  imports Complex_Main "HOL-Library.Sublist"
begin

section \<open>Calgooo server: streak scoring, meal logging and summaries\<close>

text \<open>
  A shallow embedding of the second program of \<^verbatim>\<open>src/index.js\<close> (the server with
  \<^verbatim>\<open>store.user\<close>, \<^verbatim>\<open>dayStat\<close> and \<^verbatim>\<open>buildSummary\<close>).

  Numbers. A JavaScript number is a double. The model takes the finite ones as rationals
  (\<^typ>\<open>rat\<close>) and computes exactly; a result that is not finite (\<^verbatim>\<open>Infinity\<close>,
  \<^verbatim>\<open>NaN\<close>) is \<^term>\<open>None :: rat option\<close>. Exact arithmetic is what doubles do on
  integer counters of ordinary size (sums below \<open>2^53\<close>; quotients compared with the
  thresholds of \<^verbatim>\<open>dayStat\<close> for goals below \<open>2^51\<close>).

  Objects used as dictionaries (\<^verbatim>\<open>mealsByDate\<close>, \<^verbatim>\<open>streakOverrides\<close>) are maps
  from the key to the value the object holds as its own property; a missing key is
  \<^term>\<open>None\<close>. The routes and the summary pass date keys. What a lookup does on a
  name that every object inherits from \<^verbatim>\<open>Object.prototype\<close> (such as
  \<^verbatim>\<open>constructor\<close>) is modelled apart, in \<open>totalsForKey\<close> and \<open>dayStatKey\<close>.
\<close>

subsection \<open>Data model\<close>

record macroSet =
  caloriesKcal :: rat
  proteinG :: rat
  carbsG :: rat
  fatG :: rat
  fiberG :: rat

record meal =
  meal_id :: string
  meal_type :: string
  title :: string
  imageAbsoluteUrl :: "string option"
  macros :: macroSet
  createdAt :: string

record user =
  planGoal :: string
  timezone :: string
  goals :: "macroSet option"

record store =
  user :: user
  uploads :: "string list"
  mealsByDate :: "string \<rightharpoonup> meal list"
  streakOverrides :: "string \<rightharpoonup> bool"

record dayClassification =
  date :: string
  hit :: bool
  score :: rat

text \<open>The store as the module creates it (\<^verbatim>\<open>const store = { user: ..., ... }\<close>).\<close>

definition initialGoals :: macroSet where
  "initialGoals =
     \<lparr>caloriesKcal = 2200, proteinG = 100, carbsG = 275, fatG = 70, fiberG = 30\<rparr>"

definition initialStore :: store where
  "initialStore =
     \<lparr>user = \<lparr>planGoal = ''maintain'', timezone = ''UTC'', goals = Some initialGoals\<rparr>,
      uploads = [],
      mealsByDate = Map.empty,
      streakOverrides = Map.empty\<rparr>"

subsection \<open>Number helpers\<close>

text \<open>\<^verbatim>\<open>Math.round\<close>: the nearest integer, a half rounding towards plus infinity.\<close>

definition mathRound :: "rat \<Rightarrow> rat" where
  "mathRound x = of_int \<lfloor>x + 1 / 2\<rfloor>"

text \<open>
  \<^verbatim>\<open>a / b\<close>. Division by zero raises nothing in JavaScript: it yields \<^verbatim>\<open>Infinity\<close> or
  \<^verbatim>\<open>NaN\<close>, here \<^term>\<open>None\<close>.
\<close>

definition jsDiv :: "rat \<Rightarrow> rat \<Rightarrow> rat option" where
  "jsDiv a b = (if b = 0 then None else Some (a / b))"

text \<open>\<^verbatim>\<open>d <= c\<close> for a finite \<open>c\<close>: false when \<open>d\<close> is \<^verbatim>\<open>NaN\<close> or \<^verbatim>\<open>Infinity\<close>.\<close>

fun jsLe :: "rat option \<Rightarrow> rat \<Rightarrow> bool" where
  "jsLe None c = False"
| "jsLe (Some d) c = (d \<le> c)"

text \<open>\<^verbatim>\<open>const clamp = (v, a, b) => Math.max(a, Math.min(b, v))\<close>\<close>

definition clamp :: "int \<Rightarrow> int \<Rightarrow> int \<Rightarrow> int" where
  "clamp v a b = max a (min b v)"

subsection \<open>Daily totals\<close>

definition zeroMacros :: macroSet where
  "zeroMacros = \<lparr>caloriesKcal = 0, proteinG = 0, carbsG = 0, fatG = 0, fiberG = 0\<rparr>"

text \<open>The callback of \<^verbatim>\<open>reduce\<close> in \<^verbatim>\<open>totalsForDate\<close>.\<close>

definition addMeal :: "macroSet \<Rightarrow> meal \<Rightarrow> macroSet" where
  "addMeal acc m =
     \<lparr>caloriesKcal = caloriesKcal acc + caloriesKcal (macros m),
      proteinG = proteinG acc + proteinG (macros m),
      carbsG = carbsG acc + carbsG (macros m),
      fatG = fatG acc + fatG (macros m),
      fiberG = fiberG acc + fiberG (macros m)\<rparr>"

definition totalsForDate :: "store \<Rightarrow> string \<Rightarrow> macroSet" where
  "totalsForDate st d =
     (let items = (case mealsByDate st d of None \<Rightarrow> [] | Some ms \<Rightarrow> ms)
      in foldl addMeal zeroMacros items)"

subsection \<open>Streak scoring: \<^verbatim>\<open>dayStat\<close>\<close>

text \<open>
  \<^verbatim>\<open>store.user.goals || { caloriesKcal: 2200 }\<close>, of which the callers read only
  \<^verbatim>\<open>caloriesKcal\<close>.
\<close>

definition goalCalories :: "store \<Rightarrow> rat" where
  "goalCalories st = (case goals (user st) of None \<Rightarrow> 2200 | Some g \<Rightarrow> caloriesKcal g)"

text \<open>
  The deviation of line 252:
  \<^verbatim>\<open>Math.abs(totals.caloriesKcal - goals.caloriesKcal) / Math.max(1, goals.caloriesKcal)\<close>.
\<close>

definition deviation :: "rat \<Rightarrow> rat \<Rightarrow> rat option" where
  "deviation tot goal = jsDiv \<bar>tot - goal\<bar> (max 1 goal)"

text \<open>
  The five assignments to \<^verbatim>\<open>score\<close> and the final clamp, in the order of the source;
  each \<^verbatim>\<open>if\<close> without \<^verbatim>\<open>else\<close> keeps the previous value.
\<close>

definition scoreCascade :: "rat option \<Rightarrow> rat" where
  "scoreCascade diff =
     (let s0 = 1;
          s1 = (if jsLe diff (25 / 100) then 1 else s0);
          s2 = (if jsLe diff (12 / 100) then 2 else s1);
          s3 = (if jsLe diff (8 / 100) then 3 else s2);
          s4 = (if jsLe diff (5 / 100) then 4 else s3)
      in max 0 (min 4 (mathRound s4)))"

definition dayStat :: "store \<Rightarrow> string \<Rightarrow> dayClassification" where
  "dayStat st d =
     (let override = streakOverrides st d;
          goal = goalCalories st;
          totals = totalsForDate st d;
          hasMeals = (caloriesKcal totals > 0);
          h = (case override of Some b \<Rightarrow> b | None \<Rightarrow> hasMeals)
      in if \<not> h then \<lparr>date = d, hit = False, score = 0\<rparr>
         else \<lparr>date = d, hit = True,
               score = scoreCascade (deviation (caloriesKcal totals) goal)\<rparr>)"

subsection \<open>Lookups on inherited property names\<close>

text \<open>
  \<^verbatim>\<open>mealsByDate\<close> and \<^verbatim>\<open>streakOverrides\<close> are object literals, so a lookup
  \<^verbatim>\<open>store.mealsByDate[date]\<close> that finds no own property goes on to
  \<^verbatim>\<open>Object.prototype\<close>. These are the names found there.
\<close>

definition objectPrototypeKeys :: "string set" where
  "objectPrototypeKeys =
     {''constructor'', ''__defineGetter__'', ''__defineSetter__'', ''hasOwnProperty'',
      ''__lookupGetter__'', ''__lookupSetter__'', ''isPrototypeOf'',
      ''propertyIsEnumerable'', ''toString'', ''valueOf'', ''__proto__'',
      ''toLocaleString''}"

datatype jsError = TypeError

text \<open>
  \<^verbatim>\<open>totalsForDate\<close> on any key. An inherited member is a function or an object: it is
  truthy, so \<^verbatim>\<open>|| []\<close> keeps it, and it has no \<^verbatim>\<open>reduce\<close>, so
  \<^verbatim>\<open>items.reduce(...)\<close> throws a \<^verbatim>\<open>TypeError\<close>. On every other key the result is
  that of \<^term>\<open>totalsForDate\<close>.
\<close>

definition totalsForKey :: "store \<Rightarrow> string \<Rightarrow> jsError + macroSet" where
  "totalsForKey st d =
     (case mealsByDate st d of
        Some ms \<Rightarrow> Inr (foldl addMeal zeroMacros ms)
      | None \<Rightarrow> if d \<in> objectPrototypeKeys then Inl TypeError else Inr zeroMacros)"

text \<open>
  \<^verbatim>\<open>dayStat\<close> on any key: the exception of \<^verbatim>\<open>totalsForDate\<close> at line 246 is not
  caught. An inherited member read as the override at line 244 is no boolean, as a
  missing override is.
\<close>

definition dayStatKey :: "store \<Rightarrow> string \<Rightarrow> jsError + dayClassification" where
  "dayStatKey st d =
     (case totalsForKey st d of Inl e \<Rightarrow> Inl e | Inr totals \<Rightarrow> Inr (dayStat st d))"

subsection \<open>The weeks parameter: \<^verbatim>\<open>parseInt(weeks, 10)\<close>\<close>

text \<open>
  The argument of \<^verbatim>\<open>parseInt\<close> is a JavaScript string, a sequence of UTF-16 code
  units, here natural numbers; \<open>units\<close> gives the code units of an ASCII text.
\<close>

type_synonym jsString = "nat list"

definition units :: "string \<Rightarrow> jsString" where
  "units s = map of_char s"

text \<open>
  The white space that \<^verbatim>\<open>parseInt\<close> skips (\<^verbatim>\<open>StrWhiteSpaceChar\<close> of ECMAScript):
  tab, line feed, vertical tab, form feed, carriage return, space, no-break space
  \<open>U+00A0\<close>, the other space separators \<open>U+1680\<close>, \<open>U+2000\<close> to \<open>U+200A\<close>,
  \<open>U+202F\<close>, \<open>U+205F\<close>, \<open>U+3000\<close>, the line and paragraph separators \<open>U+2028\<close>,
  \<open>U+2029\<close>, and the byte order mark \<open>U+FEFF\<close>.
\<close>

definition isWhiteSpace :: "nat \<Rightarrow> bool" where
  "isWhiteSpace c =
     (c \<in> {0x09, 0x0A, 0x0B, 0x0C, 0x0D, 0x20, 0xA0, 0x1680, 0x2028, 0x2029, 0x202F,
            0x205F, 0x3000, 0xFEFF}
      \<or> (0x2000 \<le> c \<and> c \<le> 0x200A))"

definition isDigit :: "nat \<Rightarrow> bool" where
  "isDigit c = (0x30 \<le> c \<and> c \<le> 0x39)"

definition digitsValue :: "jsString \<Rightarrow> nat" where
  "digitsValue z = foldl (\<lambda>acc c. 10 * acc + (c - 0x30)) 0 z"

text \<open>
  \<^verbatim>\<open>parseInt\<close> with radix 10: leading white space is skipped, one sign (\<open>-\<close> is
  \<open>0x2D\<close>, \<open>+\<close> is \<open>0x2B\<close>) is read, then the longest run of decimal digits; no digit
  gives \<^verbatim>\<open>NaN\<close>, here \<^term>\<open>None\<close>. The value is the exact integer: the double that
  JavaScript returns for a very long digit string differs from it only above \<open>2^53\<close>,
  where the clamp to 26 gives the same result.
\<close>

definition parseInt :: "jsString \<Rightarrow> int option" where
  "parseInt s =
     (let s1 = dropWhile isWhiteSpace s;
          sign = (case s1 of c # _ \<Rightarrow> if c = 0x2D then - 1 else 1 | [] \<Rightarrow> (1 :: int));
          s2 = (case s1 of c # r \<Rightarrow> if c = 0x2D \<or> c = 0x2B then r else s1
                | [] \<Rightarrow> s1);
          z = takeWhile isDigit s2
      in if z = [] then None else Some (sign * int (digitsValue z)))"

text \<open>
  \<^verbatim>\<open>clamp(parseInt(weeks, 10) || 12, 1, 26)\<close> with the default parameter
  \<^verbatim>\<open>weeks = 12\<close>: a missing parameter is 12, and \<^verbatim>\<open>||\<close> replaces \<^verbatim>\<open>NaN\<close> and
  \<^verbatim>\<open>0\<close> by 12. The argument is the query value as the string that \<^verbatim>\<open>parseInt\<close>
  converts it to, or \<^term>\<open>None\<close> when the query has none.
\<close>

definition weeksOf :: "jsString option \<Rightarrow> int" where
  "weeksOf weeks =
     (let p = (case weeks of None \<Rightarrow> Some 12 | Some s \<Rightarrow> parseInt s);
          v = (case p of None \<Rightarrow> 12 | Some n \<Rightarrow> if n = 0 then 12 else n)
      in clamp v 1 26)"

subsection \<open>Streak summary: \<^verbatim>\<open>buildSummary\<close>\<close>

definition BADGE_Tiers :: "nat list" where
  "BADGE_Tiers = [7, 14, 30, 60, 90, 120]"

record summaryRange =
  range_start :: "string option"
  range_end :: "string option"
  range_weeks :: int

record streakSummary =
  summary_range :: summaryRange
  summary_goal :: rat
  days :: "dayClassification list"
  currentStreak :: rat
  bestStreak :: rat
  hits7 :: rat
  hits30 :: rat
  earnedTiers :: "nat list"

text \<open>
  The forward loop over \<^verbatim>\<open>days\<close> with the counters \<^verbatim>\<open>cur\<close> and \<^verbatim>\<open>best\<close>; the
  list is what is left to visit, the result is \<^verbatim>\<open>best\<close> at the end.
\<close>

fun bestLoop :: "dayClassification list \<Rightarrow> nat \<Rightarrow> nat \<Rightarrow> nat" where
  "bestLoop [] cur best = best"
| "bestLoop (d # ds) cur best =
     (if hit d then bestLoop ds (cur + 1) (max best (cur + 1)) else bestLoop ds 0 best)"

text \<open>
  The backward loop \<^verbatim>\<open>for (i = days.length - 1; i >= 0; i--)\<close> with its \<^verbatim>\<open>break\<close>;
  the second argument is \<open>i + 1\<close>.
\<close>

fun trailingLoop :: "dayClassification list \<Rightarrow> nat \<Rightarrow> nat \<Rightarrow> nat" where
  "trailingLoop ds 0 trailing = trailing"
| "trailingLoop ds (Suc i) trailing =
     (if hit (ds ! i) then trailingLoop ds i (trailing + 1) else trailing)"

text \<open>\<^verbatim>\<open>days.slice(-n)\<close>: the last \<open>n\<close> elements, the whole array when it is shorter.\<close>

definition sliceLast :: "nat \<Rightarrow> 'a list \<Rightarrow> 'a list" where
  "sliceLast n xs = drop (length xs - n) xs"

text \<open>
  The calendar is outside the source: \<open>dayKey\<close> gives the key
  \<^verbatim>\<open>toISOString().slice(0, 10)\<close> of a day number and \<open>today\<close> is the day number of
  \<^verbatim>\<open>new Date()\<close>. The counters are natural numbers, on which \<^verbatim>\<open>Math.round\<close> acts
  through \<^term>\<open>mathRound\<close>.
\<close>

definition buildSummary ::
  "(int \<Rightarrow> string) \<Rightarrow> int \<Rightarrow> store \<Rightarrow> jsString option \<Rightarrow> streakSummary" where
  "buildSummary dayKey today st weeks =
     (let w = weeksOf weeks;
          daysCount = nat (w * 7);
          start = today - (int daysCount - 1);
          ds = map (\<lambda>i. dayStat st (dayKey (start + int i))) [0 ..< daysCount];
          best = bestLoop ds 0 0;
          trailing = trailingLoop ds (length ds) 0;
          h7 = length (filter hit (sliceLast 7 ds));
          h30 = length (filter hit (sliceLast 30 ds))
      in \<lparr>summary_range =
            \<lparr>range_start = (case ds of [] \<Rightarrow> None | d # _ \<Rightarrow> Some (date d)),
             range_end = (if ds = [] then None else Some (date (last ds))),
             range_weeks = w\<rparr>,
          summary_goal = mathRound (goalCalories st),
          days = ds,
          currentStreak = mathRound (of_nat trailing),
          bestStreak = mathRound (of_nat best),
          hits7 = mathRound (of_nat h7),
          hits30 = mathRound (of_nat h30),
          earnedTiers = filter (\<lambda>t. best \<ge> t) BADGE_Tiers\<rparr>)"

subsection \<open>Routes that write the store\<close>

datatype httpError = BadRequest string

text \<open>
  \<^verbatim>\<open>POST /v1/streaks/log\<close>. The body carries an optional date and an optional boolean
  \<^verbatim>\<open>hit\<close> (anything that is not a boolean counts as absent); \<open>today\<close> is
  \<^verbatim>\<open>isoDate()\<close>. The result is the new store and the response \<^verbatim>\<open>{ date, hit }\<close>.
\<close>

record logBody =
  body_date :: "string option"
  body_hit :: "bool option"

definition streaksLog :: "string \<Rightarrow> store \<Rightarrow> logBody \<Rightarrow> store \<times> string \<times> bool" where
  "streaksLog today st body =
     (let d = (case body_date body of None \<Rightarrow> today
               | Some s \<Rightarrow> if s = [] then today else s);
          cur = hit (dayStat st d);
          v = (case body_hit body of Some b \<Rightarrow> b | None \<Rightarrow> \<not> cur)
      in (st\<lparr>streakOverrides := (streakOverrides st)(d \<mapsto> v)\<rparr>, d, v))"

text \<open>
  \<^verbatim>\<open>POST /v1/scan/analyze\<close>: without a file the answer is status 400 and the store is
  untouched; with one, the upload is recorded and today is marked done.
\<close>

definition scanAnalyze :: "string \<Rightarrow> store \<Rightarrow> string option \<Rightarrow> httpError + store" where
  "scanAnalyze today st file =
     (case file of
        None \<Rightarrow> Inl (BadRequest ''no_file'')
      | Some filename \<Rightarrow>
          Inr (st\<lparr>uploads := filename # uploads st,
                  streakOverrides := (streakOverrides st)(today \<mapsto> True)\<rparr>))"

text \<open>
  \<^verbatim>\<open>POST /v1/meals\<close>. A macro field of the payload is a finite number or absent
  (\<^term>\<open>None\<close>); \<open>newId\<close> and \<open>now\<close> stand for the generated id and time stamp.
\<close>

record macrosBody =
  in_caloriesKcal :: "rat option"
  in_proteinG :: "rat option"
  in_carbsG :: "rat option"
  in_fatG :: "rat option"
  in_fiberG :: "rat option"

record mealBody =
  in_date :: "string option"
  in_type :: "string option"
  in_title :: "string option"
  in_image :: "string option"
  in_macros :: "macrosBody option"

record mealResponse =
  res_id :: string
  res_accepted :: bool
  res_item :: meal
  res_totals :: macroSet

text \<open>\<^verbatim>\<open>Math.round(x || 0)\<close>\<close>

definition roundOrZero :: "rat option \<Rightarrow> rat" where
  "roundOrZero x = mathRound (case x of None \<Rightarrow> 0 | Some v \<Rightarrow> if v = 0 then 0 else v)"

text \<open>
  In the body, an absent string and the empty string are falsy: \<^verbatim>\<open>!date\<close>,
  \<^verbatim>\<open>title || 'Meal'\<close>, \<^verbatim>\<open>imageAbsoluteUrl || null\<close>.
\<close>

definition logMeal ::
  "string \<Rightarrow> string \<Rightarrow> store \<Rightarrow> mealBody \<Rightarrow> httpError + store \<times> mealResponse" where
  "logMeal newId now st body =
     (case (in_date body, in_type body, in_macros body) of
        (Some d, Some ty, Some mc) \<Rightarrow>
          if d = [] \<or> ty = [] then Inl (BadRequest ''bad_request'')
          else
            (let old = (case mealsByDate st d of None \<Rightarrow> [] | Some ms \<Rightarrow> ms);
                 item =
                   \<lparr>meal_id = newId,
                    meal_type = ty,
                    title = (case in_title body of None \<Rightarrow> ''Meal''
                             | Some t \<Rightarrow> if t = [] then ''Meal'' else t),
                    imageAbsoluteUrl =
                      (case in_image body of None \<Rightarrow> None
                       | Some u \<Rightarrow> if u = [] then None else Some u),
                    macros =
                      \<lparr>caloriesKcal = roundOrZero (in_caloriesKcal mc),
                       proteinG = roundOrZero (in_proteinG mc),
                       carbsG = roundOrZero (in_carbsG mc),
                       fatG = roundOrZero (in_fatG mc),
                       fiberG = roundOrZero (in_fiberG mc)\<rparr>,
                    createdAt = now\<rparr>;
                 st' = st\<lparr>mealsByDate := (mealsByDate st)(d \<mapsto> item # old)\<rparr>
             in Inr (st',
                  \<lparr>res_id = newId, res_accepted = True, res_item = item,
                   res_totals = totalsForDate st' d\<rparr>))
      | _ \<Rightarrow> Inl (BadRequest ''bad_request''))"

subsection \<open>Onboarding: \<^verbatim>\<open>fabricatePlan\<close> and \<^verbatim>\<open>POST /v1/users/bootstrap\<close>\<close>

text \<open>
  The plan multiplies the weight and the maintenance calories by constants such as
  \<open>1.15\<close>, and converts pounds by a division; on doubles these round. The double
  product and quotient are therefore parameters, \<open>fmul\<close> and \<open>fdiv\<close>, of which the
  model assumes only that the result is a finite number. The arithmetic on the rounded
  values (\<^verbatim>\<open>proteinG * 4 + fatG * 9\<close>, the difference and the division by 4) is exact
  on integers of ordinary size and is computed as such. \<^verbatim>\<open>fabricatePlan\<close> reads only
  the goal and the weight of its argument.
\<close>

record plan =
  plan_goal :: string
  plan_caloriesKcal :: rat
  plan_proteinG :: rat
  plan_carbsG :: rat
  plan_fatG :: rat
  plan_fiberG :: rat
  plan_notes :: string

definition fabricatePlan :: "(rat \<Rightarrow> rat \<Rightarrow> rat) \<Rightarrow> string \<Rightarrow> rat \<Rightarrow> plan" where
  "fabricatePlan fmul goal weightKg =
     (let maintain = mathRound (fmul weightKg 30);
          c0 = maintain;
          c1 = (if goal = ''gain'' then mathRound (fmul maintain (115 / 100)) else c0);
          calories = (if goal = ''lose'' then mathRound (fmul maintain (80 / 100)) else c1);
          protein = mathRound (fmul weightKg (18 / 10));
          fat = mathRound (fmul weightKg (8 / 10));
          kcalFromPF = protein * 4 + fat * 9;
          carbs = max 0 (mathRound ((calories - kcalFromPF) / 4));
          fiber = 30
      in \<lparr>plan_goal = goal, plan_caloriesKcal = calories, plan_proteinG = protein,
          plan_carbsG = carbs, plan_fatG = fat, plan_fiberG = fiber,
          plan_notes = ''Auto plan for '' @ goal @ ''. Tweak anytime in Profile.''\<rparr>)"

text \<open>
  The body of the request, as far as the goal depends on it. \<open>weight_value\<close> is
  \<^verbatim>\<open>Number(weight.value)\<close>, a finite number or \<^verbatim>\<open>NaN\<close> (\<^term>\<open>None\<close>).
\<close>

record weightBody =
  weight_unit :: "string option"
  weight_value :: "rat option"

record bootstrapBody =
  boot_weight :: "weightBody option"
  boot_goal :: "string option"
  boot_timezone :: "string option"

text \<open>\<^verbatim>\<open>Number(x) || dflt\<close>\<close>

definition numberOr :: "rat option \<Rightarrow> rat \<Rightarrow> rat" where
  "numberOr x dflt = (case x of None \<Rightarrow> dflt | Some v \<Rightarrow> if v = 0 then dflt else v)"

text \<open>The weight in kilograms of lines 314 to 316; \<^verbatim>\<open>lbToKg\<close> divides by \<open>2.20462262\<close>.\<close>

definition weightKgOf :: "(rat \<Rightarrow> rat \<Rightarrow> rat) \<Rightarrow> bootstrapBody \<Rightarrow> rat" where
  "weightKgOf fdiv body =
     (case boot_weight body of
        None \<Rightarrow> 70
      | Some w \<Rightarrow>
          if weight_unit w = Some ''kg'' then numberOr (weight_value w) 70
          else if weight_unit w = Some ''lb''
          then fdiv (numberOr (weight_value w) 154) (220462262 / 100000000)
          else 70)"

text \<open>
  The route writes the plan goal, the time zone and the rounded goals into
  \<^verbatim>\<open>store.user\<close> (the profile is not part of the model) and answers with the plan.
  Nothing in its \<^verbatim>\<open>try\<close> block throws on such a body.
\<close>

definition bootstrap ::
  "(rat \<Rightarrow> rat \<Rightarrow> rat) \<Rightarrow> (rat \<Rightarrow> rat \<Rightarrow> rat) \<Rightarrow> store \<Rightarrow> bootstrapBody \<Rightarrow> store \<times> plan" where
  "bootstrap fmul fdiv st body =
     (let weightKg = weightKgOf fdiv body;
          pg = (case boot_goal body of
                  None \<Rightarrow> ''maintain''
                | Some g \<Rightarrow>
                    if g = ''gain'' \<or> g = ''lose'' \<or> g = ''maintain'' then g
                    else ''maintain'');
          p = fabricatePlan fmul pg weightKg;
          tz = (case boot_timezone body of None \<Rightarrow> ''UTC''
                | Some t \<Rightarrow> if t = [] then ''UTC'' else t)
      in (st\<lparr>user := (user st)
              \<lparr>planGoal := pg, timezone := tz,
               goals := Some \<lparr>caloriesKcal = mathRound (plan_caloriesKcal p),
                              proteinG = mathRound (plan_proteinG p),
                              carbsG = mathRound (plan_carbsG p),
                              fatG = mathRound (plan_fatG p),
                              fiberG = mathRound (plan_fiberG p)\<rparr>\<rparr>\<rparr>,
          p))"

subsection \<open>Notions of the specification\<close>

text \<open>A run of consecutive hit days of the window: a contiguous part, all of it hit.\<close>

definition hitRun :: "dayClassification list \<Rightarrow> dayClassification list \<Rightarrow> bool" where
  "hitRun ds ys = (sublist ys ds \<and> list_all hit ys)"

text \<open>The run of hit days that ends at the last day of the window.\<close>

definition trailingRun :: "dayClassification list \<Rightarrow> nat" where
  "trailingRun ds = length (takeWhile hit (rev ds))"

text \<open>The score as the chain of alternatives, over the exact deviation.\<close>

definition scoreChain :: "rat \<Rightarrow> rat" where
  "scoreChain x =
     (if x \<le> 5 / 100 then 4 else if x \<le> 8 / 100 then 3
      else if x \<le> 12 / 100 then 2 else if x \<le> 25 / 100 then 1 else 1)"

definition isInteger :: "rat \<Rightarrow> bool" where
  "isInteger x = (of_int \<lfloor>x\<rfloor> = x)"

definition macrosInteger :: "macroSet \<Rightarrow> bool" where
  "macrosInteger m =
     (isInteger (caloriesKcal m) \<and> isInteger (proteinG m) \<and> isInteger (carbsG m)
      \<and> isInteger (fatG m) \<and> isInteger (fiberG m))"

definition macrosNonneg :: "macroSet \<Rightarrow> bool" where
  "macrosNonneg m =
     (0 \<le> caloriesKcal m \<and> 0 \<le> proteinG m \<and> 0 \<le> carbsG m \<and> 0 \<le> fatG m \<and> 0 \<le> fiberG m)"

text \<open>The meals the store holds, over all dates.\<close>

definition storedMeals :: "store \<Rightarrow> meal set" where
  "storedMeals st = {m. \<exists>d ms. mealsByDate st d = Some ms \<and> m \<in> set ms}"

text \<open>A payload of the meal route is non-negative: each macro field absent or at least 0.\<close>

fun fieldNonneg :: "rat option \<Rightarrow> bool" where
  "fieldNonneg None = True"
| "fieldNonneg (Some v) = (0 \<le> v)"

definition payloadNonneg :: "macrosBody \<Rightarrow> bool" where
  "payloadNonneg mc =
     (fieldNonneg (in_caloriesKcal mc) \<and> fieldNonneg (in_proteinG mc)
      \<and> fieldNonneg (in_carbsG mc) \<and> fieldNonneg (in_fatG mc) \<and> fieldNonneg (in_fiberG mc))"

text \<open>A payload value rounded to the nearest integer, a half upwards; 0 when absent.\<close>

definition rounded :: "rat option \<Rightarrow> rat" where
  "rounded x = (case x of None \<Rightarrow> 0 | Some v \<Rightarrow> of_int \<lfloor>v + 1 / 2\<rfloor>)"

text \<open>The meals logged for a date, the newest first.\<close>

definition mealsOn :: "store \<Rightarrow> string \<Rightarrow> meal list" where
  "mealsOn st d = (case mealsByDate st d of None \<Rightarrow> [] | Some ms \<Rightarrow> ms)"

text \<open>The sum of one field over a list of meals, and the field-wise sums.\<close>

definition fieldSum :: "(macroSet \<Rightarrow> rat) \<Rightarrow> meal list \<Rightarrow> rat" where
  "fieldSum f ms = sum_list (map (\<lambda>m. f (macros m)) ms)"

definition sumsOf :: "meal list \<Rightarrow> macroSet" where
  "sumsOf ms =
     \<lparr>caloriesKcal = fieldSum caloriesKcal ms, proteinG = fieldSum proteinG ms,
      carbsG = fieldSum carbsG ms, fatG = fieldSum fatG ms, fiberG = fieldSum fiberG ms\<rparr>"

text \<open>
  Doubles add integers exactly as long as the sums stay within \<open>2^53\<close> in absolute
  value. That holds along the whole \<^verbatim>\<open>reduce\<close> when, for each field, the absolute
  values of the meals add up to \<open>2^53\<close> at most.
\<close>

definition fieldAbsSum :: "(macroSet \<Rightarrow> rat) \<Rightarrow> meal list \<Rightarrow> rat" where
  "fieldAbsSum f ms = sum_list (map (\<lambda>m. \<bar>f (macros m)\<bar>) ms)"

definition sumsExact :: "meal list \<Rightarrow> bool" where
  "sumsExact ms =
     (fieldAbsSum caloriesKcal ms \<le> 2 ^ 53 \<and> fieldAbsSum proteinG ms \<le> 2 ^ 53
      \<and> fieldAbsSum carbsG ms \<le> 2 ^ 53 \<and> fieldAbsSum fatG ms \<le> 2 ^ 53
      \<and> fieldAbsSum fiberG ms \<le> 2 ^ 53)"

definition macrosSafe :: "macroSet \<Rightarrow> bool" where
  "macrosSafe m =
     (\<bar>caloriesKcal m\<bar> \<le> 2 ^ 53 \<and> \<bar>proteinG m\<bar> \<le> 2 ^ 53 \<and> \<bar>carbsG m\<bar> \<le> 2 ^ 53
      \<and> \<bar>fatG m\<bar> \<le> 2 ^ 53 \<and> \<bar>fiberG m\<bar> \<le> 2 ^ 53)"

text \<open>A product or quotient that is not negative on arguments that are not.\<close>

definition signKeeping :: "(rat \<Rightarrow> rat \<Rightarrow> rat) \<Rightarrow> bool" where
  "signKeeping f = (\<forall>a b. 0 \<le> a \<and> 0 \<le> b \<longrightarrow> 0 \<le> f a b)"

text \<open>The onboarding body gives no negative weight.\<close>

definition weightNonneg :: "bootstrapBody \<Rightarrow> bool" where
  "weightNonneg body =
     (case boot_weight body of None \<Rightarrow> True | Some w \<Rightarrow> fieldNonneg (weight_value w))"

subsection \<open>Example inputs\<close>

text \<open>A store with one logged day.\<close>

definition lunch :: meal where
  "lunch =
     \<lparr>meal_id = ''meal_1'', meal_type = ''Lunch'', title = ''Meal'', imageAbsoluteUrl = None,
      macros = \<lparr>caloriesKcal = 2000, proteinG = 90, carbsG = 250, fatG = 60, fiberG = 20\<rparr>,
      createdAt = ''2025-03-01T12:00:00.000Z''\<rparr>"

definition loggedStore :: store where
  "loggedStore = initialStore\<lparr>mealsByDate := [''2025-03-01'' \<mapsto> [lunch]]\<rparr>"

text \<open>
  A store with a calorie goal of 0: one day with a logged lunch, the next day marked done
  with nothing logged.
\<close>

definition zeroGoalStore :: store where
  "zeroGoalStore =
     loggedStore
       \<lparr>user := (user loggedStore)\<lparr>goals := Some (initialGoals\<lparr>caloriesKcal := 0\<rparr>)\<rparr>,
        streakOverrides := [''2025-03-02'' \<mapsto> True]\<rparr>"

text \<open>A day key for examples: the day number in unary.\<close>

definition unaryKey :: "int \<Rightarrow> string" where
  "unaryKey n = replicate (nat n) CHR ''d''"

text \<open>A meal payload with negative and fractional macro values.\<close>

definition refundBody :: mealBody where
  "refundBody =
     \<lparr>in_date = Some ''2025-03-01'', in_type = Some ''Snack'', in_title = None,
      in_image = None,
      in_macros = Some \<lparr>in_caloriesKcal = Some (- 100), in_proteinG = Some (5 / 2),
                        in_carbsG = None, in_fatG = Some 0, in_fiberG = Some (- 5 / 2)\<rparr>\<rparr>"

definition refundLog :: "httpError + store \<times> mealResponse" where
  "refundLog = logMeal ''meal_2'' ''2025-03-01T13:00:00.000Z'' initialStore refundBody"

text \<open>A meal payload of a plain lunch.\<close>

definition lunchBody :: mealBody where
  "lunchBody =
     \<lparr>in_date = Some ''2025-03-01'', in_type = Some ''Lunch'', in_title = Some ''Bowl'',
      in_image = None,
      in_macros = Some \<lparr>in_caloriesKcal = Some (1041 / 2), in_proteinG = Some 38,
                        in_carbsG = Some 62, in_fatG = Some 12, in_fiberG = None\<rparr>\<rparr>"

text \<open>An onboarding body: 70 kilograms, goal gain.\<close>

definition gainBody :: bootstrapBody where
  "gainBody =
     \<lparr>boot_weight = Some \<lparr>weight_unit = Some ''kg'', weight_value = Some 70\<rparr>,
      boot_goal = Some ''gain'', boot_timezone = None\<rparr>"

text \<open>Six classified days: three hits, a miss, two hits.\<close>

definition sampleDays :: "dayClassification list" where
  "sampleDays =
     [\<lparr>date = ''2025-03-01'', hit = True, score = 4\<rparr>,
      \<lparr>date = ''2025-03-02'', hit = True, score = 1\<rparr>,
      \<lparr>date = ''2025-03-03'', hit = True, score = 2\<rparr>,
      \<lparr>date = ''2025-03-04'', hit = False, score = 0\<rparr>,
      \<lparr>date = ''2025-03-05'', hit = True, score = 3\<rparr>,
      \<lparr>date = ''2025-03-06'', hit = True, score = 1\<rparr>]"

text \<open>A store with the days 1, 2, 3, 5 and 6 marked done.\<close>

definition weekStore :: store where
  "weekStore =
     initialStore\<lparr>streakOverrides :=
       map_of [(unaryKey 1, True), (unaryKey 2, True), (unaryKey 3, True),
               (unaryKey 5, True), (unaryKey 6, True)]\<rparr>"

text \<open>A store with the days 0 to 199 marked done.\<close>

definition busyStore :: store where
  "busyStore =
     initialStore\<lparr>streakOverrides :=
       map_of (map (\<lambda>j. (unaryKey (int j), True)) [0 ..< 200])\<rparr>"

section \<open>Properties of the day classifier\<close>

lemma mathRound_of_int: "mathRound (of_int n) = of_int n"
proof -
  have "\<lfloor>(of_int n :: rat) + 1 / 2\<rfloor> = n"
    by (rule floor_unique) auto
  then show ?thesis
    by (simp add: mathRound_def)
qed

lemma mathRound_integers:
  "mathRound 0 = 0" "mathRound (numeral k) = numeral k"
  "mathRound (- numeral k) = - numeral k"
  using mathRound_of_int [of 0] mathRound_of_int [of "numeral k"]
    mathRound_of_int [of "- numeral k"]
  by simp_all

lemma mathRound_half_up: "mathRound (of_int n + 1 / 2) = of_int n + 1"
proof -
  have "\<lfloor>(of_int n :: rat) + 1 / 2 + 1 / 2\<rfloor> = n + 1"
    by (rule floor_unique) auto
  then show ?thesis
    by (simp add: mathRound_def)
qed

lemma mathRound_halves:
  "mathRound (5 / 2) = 3" "mathRound (- 5 / 2) = - 2" "mathRound (- (5 / 2)) = - 2"
  "mathRound (1041 / 2) = 521"
  using mathRound_half_up [of 2] mathRound_half_up [of "- 3"] mathRound_half_up [of 520]
  by simp_all

lemma mathRound_numerals:
  "mathRound 1 = 1" "mathRound 2 = 2" "mathRound 3 = 3" "mathRound 4 = 4"
  using mathRound_of_int [of 1] mathRound_of_int [of 2]
    mathRound_of_int [of 3] mathRound_of_int [of 4]
  by simp_all

lemma deviation_finite:
  "deviation tot goal = Some (\<bar>tot - goal\<bar> / max 1 goal)"
proof -
  have "max 1 goal \<noteq> 0"
    by (simp add: max_def)
  then show ?thesis
    by (simp add: deviation_def jsDiv_def)
qed

lemma scoreCascade_chain: "scoreCascade (Some x) = scoreChain x"
  by (simp add: scoreCascade_def scoreChain_def mathRound_numerals)

lemma scoreCascade_range:
  "scoreCascade diff \<in> {1, 2, 3, 4}"
  by (cases diff) (simp_all add: scoreCascade_def mathRound_numerals)

lemma dayStat_hit:
  "hit (dayStat st d) =
     (case streakOverrides st d of Some b \<Rightarrow> b
      | None \<Rightarrow> caloriesKcal (totalsForDate st d) > 0)"
  by (simp add: dayStat_def Let_def)

lemma dayStat_date: "date (dayStat st d) = d"
  by (simp add: dayStat_def Let_def)

lemma dayStat_score:
  "score (dayStat st d) =
     (if hit (dayStat st d)
      then scoreCascade (deviation (caloriesKcal (totalsForDate st d)) (goalCalories st))
      else 0)"
  by (simp add: dayStat_def Let_def)

lemma totalsForDate_no_meals:
  "mealsByDate st d = None \<or> mealsByDate st d = Some [] \<Longrightarrow>
     totalsForDate st d = zeroMacros"
  by (auto simp: totalsForDate_def)

lemma dayStat_overridden:
  "streakOverrides st d = Some True \<Longrightarrow>
     dayStat st d =
       \<lparr>date = d, hit = True,
        score = scoreCascade (deviation (caloriesKcal (totalsForDate st d)) (goalCalories st))\<rparr>"
  by (simp add: dayStat_def Let_def)

lemma loggedStore_day:
  "dayStat loggedStore ''2025-03-01'' = \<lparr>date = ''2025-03-01'', hit = True, score = 2\<rparr>"
  by (simp add: dayStat_def loggedStore_def initialStore_def initialGoals_def lunch_def
      totalsForDate_def addMeal_def zeroMacros_def goalCalories_def deviation_def jsDiv_def
      scoreCascade_def mathRound_numerals)

lemma initialStore_day:
  "dayStat initialStore d = \<lparr>date = d, hit = False, score = 0\<rparr>"
  by (simp add: dayStat_def initialStore_def totalsForDate_def zeroMacros_def)

subsection \<open>The claims about \<^verbatim>\<open>dayStat\<close>\<close>

text \<open>
  C1. On a day that is a hit, the score is the chain of alternatives over the relative
  deviation \<open>diff = |totals - goal| / max(1, goal)\<close>: 4 if \<open>diff \<le> 0.05\<close>, else 3 if
  \<open>diff \<le> 0.08\<close>, else 2 if \<open>diff \<le> 0.12\<close>, else 1 if \<open>diff \<le> 0.25\<close>, and 1 as
  well (not 0) beyond 0.25. The model computes the score by the five overwriting
  assignments of the source.
\<close>

theorem dayStat_score_chain:
  assumes "hit (dayStat st d)"
  shows "let diff = \<bar>caloriesKcal (totalsForDate st d) - goalCalories st\<bar>
                      / max 1 (goalCalories st)
         in deviation (caloriesKcal (totalsForDate st d)) (goalCalories st) = Some diff
            \<and> score (dayStat st d) =
                (if diff \<le> 5 / 100 then 4 else if diff \<le> 8 / 100 then 3
                 else if diff \<le> 12 / 100 then 2 else if diff \<le> 25 / 100 then 1 else 1)
            \<and> (diff > 25 / 100 \<longrightarrow> score (dayStat st d) = 1)"
proof -
  define diff where
    "diff = \<bar>caloriesKcal (totalsForDate st d) - goalCalories st\<bar> / max 1 (goalCalories st)"
  have dev: "deviation (caloriesKcal (totalsForDate st d)) (goalCalories st) = Some diff"
    unfolding diff_def by (rule deviation_finite)
  have sc: "score (dayStat st d) = scoreChain diff"
    using assms by (simp add: dayStat_score dev scoreCascade_chain)
  have chain: "score (dayStat st d) =
      (if diff \<le> 5 / 100 then 4 else if diff \<le> 8 / 100 then 3
       else if diff \<le> 12 / 100 then 2 else if diff \<le> 25 / 100 then 1 else 1)"
    using sc by (simp only: scoreChain_def)
  have far: "diff > 25 / 100 \<longrightarrow> score (dayStat st d) = 1"
    using sc by (simp add: scoreChain_def)
  show ?thesis
    unfolding Let_def
    by (rule conjI [OF dev [unfolded diff_def]
          conjI [OF chain [unfolded diff_def] far [unfolded diff_def]]])
qed

theorem dayStat_score_chain_witness:
  "hit (dayStat loggedStore ''2025-03-01'')
   \<and> deviation (caloriesKcal (totalsForDate loggedStore ''2025-03-01''))
       (goalCalories loggedStore) = Some (1 / 11)
   \<and> score (dayStat loggedStore ''2025-03-01'') = 2"
proof -
  have h: "hit (dayStat loggedStore ''2025-03-01'')"
    by (simp add: loggedStore_day)
  have t: "caloriesKcal (totalsForDate loggedStore ''2025-03-01'') = 2000"
    by (simp add: loggedStore_def lunch_def totalsForDate_def addMeal_def zeroMacros_def)
  have g: "goalCalories loggedStore = 2200"
    by (simp add: loggedStore_def initialStore_def initialGoals_def goalCalories_def)
  from dayStat_score_chain [OF h] h show ?thesis
    by (simp add: Let_def t g)
qed

text \<open>
  C2. For every store (goal, meals, overrides) and date, the classification has an
  integer score between 0 and 4; a positive score implies a hit, and a miss has
  score 0.
\<close>

theorem dayStat_score_invariant:
  "score (dayStat st d) \<in> \<int>
   \<and> 0 \<le> score (dayStat st d) \<and> score (dayStat st d) \<le> 4
   \<and> (score (dayStat st d) > 0 \<longrightarrow> hit (dayStat st d))
   \<and> (\<not> hit (dayStat st d) \<longrightarrow> score (dayStat st d) = 0)"
proof (cases "hit (dayStat st d)")
  case True
  have "scoreCascade (deviation (caloriesKcal (totalsForDate st d)) (goalCalories st))
      \<in> {1, 2, 3, 4}"
    by (rule scoreCascade_range)
  with True show ?thesis
    by (auto simp: dayStat_score)
next
  case False
  then show ?thesis
    by (simp add: dayStat_score)
qed

theorem dayStat_score_invariant_witness:
  "(0 < score (dayStat loggedStore ''2025-03-01'') \<and> hit (dayStat loggedStore ''2025-03-01''))
   \<and> (\<not> hit (dayStat initialStore ''2025-03-01'')
        \<and> score (dayStat initialStore ''2025-03-01'') = 0)"
  using dayStat_score_invariant [of loggedStore "''2025-03-01''"]
    dayStat_score_invariant [of initialStore "''2025-03-01''"]
  by (simp add: loggedStore_day initialStore_day)

text \<open>
  C7. A date with no logged meal (its aggregated calories are 0) and no override is a
  miss with score 0.
\<close>

theorem dayStat_nothing_logged:
  assumes "streakOverrides st d = None"
    and "mealsByDate st d = None \<or> mealsByDate st d = Some []
         \<or> caloriesKcal (totalsForDate st d) = 0"
  shows "dayStat st d = \<lparr>date = d, hit = False, score = 0\<rparr>"
proof -
  have "caloriesKcal (totalsForDate st d) = 0"
    using assms(2) totalsForDate_no_meals [of st d] by (auto simp: zeroMacros_def)
  with assms(1) show ?thesis
    by (simp add: dayStat_def)
qed

theorem dayStat_nothing_logged_witness:
  "streakOverrides initialStore ''2025-03-02'' = None
   \<and> mealsByDate initialStore ''2025-03-02'' = None
   \<and> dayStat initialStore ''2025-03-02'' = \<lparr>date = ''2025-03-02'', hit = False, score = 0\<rparr>"
proof -
  have a: "streakOverrides initialStore ''2025-03-02'' = None"
    and b: "mealsByDate initialStore ''2025-03-02'' = None"
    by (simp_all add: initialStore_def)
  from dayStat_nothing_logged [OF a disjI1 [OF b]] a b show ?thesis
    by simp
qed

lemma totalsForKey_date:
  "totalsForKey st d = Inr t \<Longrightarrow> t = totalsForDate st d"
  by (auto simp: totalsForKey_def totalsForDate_def split: option.splits if_splits)

lemma dayStatKey_returns:
  "d \<notin> objectPrototypeKeys \<Longrightarrow> dayStatKey st d = Inr (dayStat st d)"
  by (simp add: dayStatKey_def totalsForKey_def split: option.splits)

lemma not_inherited:
  "''2025-03-01'' \<notin> objectPrototypeKeys" "''2025-03-02'' \<notin> objectPrototypeKeys"
  by (simp_all add: objectPrototypeKeys_def)

lemma zeroGoalStore_days:
  "dayStat zeroGoalStore ''2025-03-01'' = \<lparr>date = ''2025-03-01'', hit = True, score = 1\<rparr>"
  "dayStat zeroGoalStore ''2025-03-02'' = \<lparr>date = ''2025-03-02'', hit = True, score = 4\<rparr>"
  by (simp_all add: dayStat_def zeroGoalStore_def loggedStore_def initialStore_def
      initialGoals_def lunch_def totalsForDate_def addMeal_def zeroMacros_def goalCalories_def
      deviation_def jsDiv_def scoreCascade_def mathRound_numerals)

text \<open>
  C9. The claim is that the classifier is total, with no error branch, on every input,
  and that the division is guarded by \<open>max(1, goal)\<close>. The guard is there: with a goal
  of 0 the denominator is 1, so a day with 2000 calories has deviation 2000 and scores 1,
  and a day marked done with nothing logged has deviation 0 and scores 4. But the
  classifier does not return on every input: for the key \<open>constructor\<close>, which
  \<^verbatim>\<open>POST /v1/streaks/log\<close> passes on from the request body, the meal lookup finds the
  inherited member and \<^verbatim>\<open>items.reduce\<close> throws; on a date key it returns.
\<close>

theorem dayStat_throws_on_inherited_key:
  "totalsForKey initialStore ''constructor'' = Inl TypeError
   \<and> dayStatKey initialStore ''constructor'' = Inl TypeError
   \<and> dayStatKey initialStore ''2025-03-01''
       = Inr \<lparr>date = ''2025-03-01'', hit = False, score = 0\<rparr>
   \<and> goalCalories zeroGoalStore = 0
   \<and> deviation 2000 0 = Some 2000 \<and> deviation 0 0 = Some 0
   \<and> dayStatKey zeroGoalStore ''2025-03-01''
       = Inr \<lparr>date = ''2025-03-01'', hit = True, score = 1\<rparr>
   \<and> dayStatKey zeroGoalStore ''2025-03-02''
       = Inr \<lparr>date = ''2025-03-02'', hit = True, score = 4\<rparr>"
proof -
  have "totalsForKey initialStore ''constructor'' = Inl TypeError"
    by (simp add: totalsForKey_def initialStore_def objectPrototypeKeys_def)
  moreover from this have "dayStatKey initialStore ''constructor'' = Inl TypeError"
    by (simp add: dayStatKey_def)
  moreover have "deviation 2000 0 = Some 2000" "deviation 0 0 = Some 0"
    by (simp_all add: deviation_finite)
  moreover have "goalCalories zeroGoalStore = 0"
    by (simp add: goalCalories_def zeroGoalStore_def)
  ultimately show ?thesis
    by (simp add: dayStatKey_returns not_inherited initialStore_day zeroGoalStore_days)
qed

text \<open>
  C10. A date with an override of true, no calories logged and a goal of at least 1 is a
  hit with score exactly 1: the deviation is 1, beyond every threshold. That is the state
  of today after a scan (or a manual log) on a day with nothing logged.
\<close>

theorem dayStat_override_only:
  assumes "caloriesKcal (totalsForDate st d) = 0" and "1 \<le> goalCalories st"
  shows "(streakOverrides st d = Some True \<longrightarrow>
            deviation (caloriesKcal (totalsForDate st d)) (goalCalories st) = Some 1
            \<and> dayStat st d = \<lparr>date = d, hit = True, score = 1\<rparr>)
         \<and> (\<forall>st'. scanAnalyze d st (Some file) = Inr st' \<longrightarrow>
              dayStat st' d = \<lparr>date = d, hit = True, score = 1\<rparr>)"
proof -
  have dev: "deviation 0 (goalCalories st) = Some 1"
    using assms(2) by (simp add: deviation_finite max_def)
  have sc: "scoreCascade (Some 1) = 1"
    by (simp add: scoreCascade_chain scoreChain_def)
  have one: "dayStat st d = \<lparr>date = d, hit = True, score = 1\<rparr>"
    if "streakOverrides st d = Some True"
    using that assms(1) dev sc by (simp add: dayStat_overridden)
  have two: "dayStat st' d = \<lparr>date = d, hit = True, score = 1\<rparr>"
    if "scanAnalyze d st (Some file) = Inr st'" for st'
  proof -
    from that have st': "st' = st\<lparr>uploads := file # uploads st,
        streakOverrides := (streakOverrides st)(d \<mapsto> True)\<rparr>"
      by (simp add: scanAnalyze_def)
    have "totalsForDate st' d = totalsForDate st d" "goalCalories st' = goalCalories st"
      by (simp_all add: st' totalsForDate_def goalCalories_def)
    moreover have "streakOverrides st' d = Some True"
      by (simp add: st')
    ultimately show ?thesis
      using assms(1) dev sc by (simp add: dayStat_overridden)
  qed
  from one two dev assms(1) show ?thesis
    by simp
qed

theorem dayStat_override_only_witness:
  "caloriesKcal (totalsForDate initialStore ''2025-03-01'') = 0
   \<and> 1 \<le> goalCalories initialStore
   \<and> scanAnalyze ''2025-03-01'' initialStore (Some ''img_1.jpg'')
       = Inr (initialStore\<lparr>uploads := [''img_1.jpg''],
                streakOverrides := [''2025-03-01'' \<mapsto> True]\<rparr>)
   \<and> dayStat (initialStore\<lparr>uploads := [''img_1.jpg''],
                streakOverrides := [''2025-03-01'' \<mapsto> True]\<rparr>) ''2025-03-01''
       = \<lparr>date = ''2025-03-01'', hit = True, score = 1\<rparr>"
proof -
  have a: "caloriesKcal (totalsForDate initialStore ''2025-03-01'') = 0"
    by (simp add: initialStore_def totalsForDate_def zeroMacros_def)
  have b: "1 \<le> goalCalories initialStore"
    by (simp add: initialStore_def initialGoals_def goalCalories_def)
  have c: "scanAnalyze ''2025-03-01'' initialStore (Some ''img_1.jpg'')
      = Inr (initialStore\<lparr>uploads := [''img_1.jpg''],
               streakOverrides := [''2025-03-01'' \<mapsto> True]\<rparr>)"
    by (simp add: scanAnalyze_def initialStore_def)
  from dayStat_override_only [OF a b, of "''img_1.jpg''"] a b c show ?thesis
    by simp
qed

text \<open>
  C3. An override that is present decides \<open>hit\<close>, whatever the meals of the date: \<open>hit\<close>
  is the override. With an override of true the score is the chain of alternatives over
  the deviation, at least 1 and never cut short to 0. A log request with \<open>hit = true\<close>
  makes the date it answers with a hit, and that date is the requested one when the
  request names one.
\<close>

theorem override_determines_hit:
  "(streakOverrides st d = Some b \<longrightarrow> hit (dayStat st d) = b)
   \<and> (streakOverrides st d = Some True \<longrightarrow>
         score (dayStat st d) =
           scoreChain (\<bar>caloriesKcal (totalsForDate st d) - goalCalories st\<bar>
                         / max 1 (goalCalories st))
         \<and> 1 \<le> score (dayStat st d))
   \<and> (\<forall>st' d' h. streaksLog today st \<lparr>body_date = req, body_hit = Some True\<rparr> = (st', d', h) \<longrightarrow>
         h \<and> hit (dayStat st' d') \<and> streakOverrides st' d' = Some True
         \<and> (req = Some d \<and> d \<noteq> [] \<longrightarrow> d' = d))"
proof -
  have one: "hit (dayStat st d) = b" if "streakOverrides st d = Some b"
    using that by (simp add: dayStat_hit)
  have two: "score (dayStat st d) =
        scoreChain (\<bar>caloriesKcal (totalsForDate st d) - goalCalories st\<bar>
                      / max 1 (goalCalories st))
      \<and> 1 \<le> score (dayStat st d)"
    if "streakOverrides st d = Some True"
  proof -
    have "scoreCascade (deviation (caloriesKcal (totalsForDate st d)) (goalCalories st))
        \<in> {1, 2, 3, 4}"
      by (rule scoreCascade_range)
    then show ?thesis
      using that by (auto simp: dayStat_overridden deviation_finite scoreCascade_chain)
  qed
  have three: "h \<and> hit (dayStat st' d') \<and> streakOverrides st' d' = Some True
      \<and> (req = Some d \<and> d \<noteq> [] \<longrightarrow> d' = d)"
    if "streaksLog today st \<lparr>body_date = req, body_hit = Some True\<rparr> = (st', d', h)"
    for st' d' h
  proof -
    from that have h and ov: "streakOverrides st' d' = Some True"
      and d': "req = Some d \<and> d \<noteq> [] \<longrightarrow> d' = d"
      by (auto simp: streaksLog_def Let_def)
    from ov have "hit (dayStat st' d')"
      by (simp add: dayStat_hit)
    with \<open>h\<close> ov d' show ?thesis
      by simp
  qed
  from one two three show ?thesis
    by blast
qed

theorem override_determines_hit_witness:
  "streakOverrides (loggedStore\<lparr>streakOverrides := [''2025-03-01'' \<mapsto> False]\<rparr>) ''2025-03-01''
     = Some False
   \<and> \<not> hit (dayStat (loggedStore\<lparr>streakOverrides := [''2025-03-01'' \<mapsto> False]\<rparr>)
             ''2025-03-01'')
   \<and> streaksLog ''2025-03-05'' initialStore
        \<lparr>body_date = Some ''2025-03-02'', body_hit = Some True\<rparr>
       = (initialStore\<lparr>streakOverrides := [''2025-03-02'' \<mapsto> True]\<rparr>, ''2025-03-02'', True)
   \<and> hit (dayStat (initialStore\<lparr>streakOverrides := [''2025-03-02'' \<mapsto> True]\<rparr>) ''2025-03-02'')
   \<and> score (dayStat (initialStore\<lparr>streakOverrides := [''2025-03-02'' \<mapsto> True]\<rparr>)
        ''2025-03-02'') = 1"
proof -
  let ?off = "loggedStore\<lparr>streakOverrides := [''2025-03-01'' \<mapsto> False]\<rparr>"
  let ?on = "initialStore\<lparr>streakOverrides := [''2025-03-02'' \<mapsto> True]\<rparr>"
  have a: "streakOverrides ?off ''2025-03-01'' = Some False"
    by simp
  have b: "streaksLog ''2025-03-05'' initialStore
      \<lparr>body_date = Some ''2025-03-02'', body_hit = Some True\<rparr> = (?on, ''2025-03-02'', True)"
    by (simp add: streaksLog_def initialStore_def Let_def)
  have c: "streakOverrides ?on ''2025-03-02'' = Some True"
    by simp
  have t: "caloriesKcal (totalsForDate ?on ''2025-03-02'') = 0" "goalCalories ?on = 2200"
    by (simp_all add: initialStore_def initialGoals_def totalsForDate_def zeroMacros_def
        goalCalories_def)
  have s: "scoreChain 1 = 1"
    by (simp add: scoreChain_def)
  from override_determines_hit [of ?off "''2025-03-01''" False "''2025-03-05''" None] a
  have 1: "\<not> hit (dayStat ?off ''2025-03-01'')"
    by blast
  from override_determines_hit
    [of initialStore "''2025-03-02''" True "''2025-03-05''" "Some ''2025-03-02''"] b
  have 2: "hit (dayStat ?on ''2025-03-02'')"
    by blast
  from override_determines_hit [of ?on "''2025-03-02''" True "''2025-03-05''" None] c
  have 3: "score (dayStat ?on ''2025-03-02'') = 1"
    by (simp add: t s)
  from a b 1 2 3 show ?thesis
    by blast
qed

section \<open>The weeks parameter\<close>

lemmas parseInt_eval = parseInt_def isWhiteSpace_def isDigit_def digitsValue_def units_def

lemma weeksOf_range: "1 \<le> weeksOf weeks \<and> weeksOf weeks \<le> 26"
  by (simp add: weeksOf_def clamp_def Let_def)

lemma weeksOf_examples:
  "weeksOf None = 12" "weeksOf (Some (units ''abc'')) = 12" "weeksOf (Some (units ''1000'')) = 26"
  "weeksOf (Some (units ''0'')) = 12" "weeksOf (Some (units ''-3'')) = 1"
  by (simp_all add: weeksOf_def parseInt_eval clamp_def)

lemma buildSummary_weeks:
  "range_weeks (summary_range (buildSummary dayKey today st weeks)) = weeksOf weeks"
  by (simp add: buildSummary_def Let_def)

lemma buildSummary_length:
  "length (days (buildSummary dayKey today st weeks)) = nat (weeksOf weeks * 7)"
  by (simp add: buildSummary_def Let_def)

lemma parseInt_examples:
  "parseInt (units ''0'') = Some 0" "parseInt (units ''1000'') = Some 1000"
  "parseInt (units ''abc'') = None" "parseInt (units ''-1'') = Some (- 1)"
  "parseInt (units '' 12px'') = Some 12"
  by (simp_all add: parseInt_eval)

text \<open>White space beyond ASCII is skipped as well: a no-break space or a byte order mark before \<open>7\<close>.\<close>

lemma parseInt_white_space:
  "parseInt [0xA0, 0x37] = Some 7" "parseInt [0xFEFF, 0x2028, 0x37] = Some 7"
  "weeksOf (Some [0xA0, 0x37]) = 7"
  by (simp_all add: weeksOf_def parseInt_eval clamp_def)

text \<open>
  C4. The claim is that the parsed weeks parameter is clamped into 1 to 26, with default
  12: input \<open>0\<close> is 1 week (7 days), \<open>1000\<close> is 26 weeks (182 days) and \<open>abc\<close> is 12
  weeks (84 days). The code does so for \<open>1000\<close> and \<open>abc\<close>, and not for \<open>0\<close>:
  \<^verbatim>\<open>parseInt\<close> gives 0, which \<^verbatim>\<open>||\<close> takes for a missing value and replaces by 12
  before the clamp. So \<open>0\<close> gives 12 weeks (84 days), between \<open>-1\<close> and \<open>1\<close>, which both
  give 1 week.
\<close>

theorem weeks_zero_is_default:
  "parseInt (units ''0'') = Some 0
   \<and> weeksOf (Some (units ''0'')) = 12
   \<and> weeksOf (Some (units ''0'')) \<noteq> clamp 0 1 26
   \<and> range_weeks (summary_range (buildSummary unaryKey 1000 initialStore (Some (units ''0'')))) = 12
   \<and> length (days (buildSummary unaryKey 1000 initialStore (Some (units ''0'')))) = 84
   \<and> weeksOf (Some (units ''-1'')) = 1 \<and> weeksOf (Some (units ''1'')) = 1
   \<and> length (days (buildSummary unaryKey 1000 initialStore (Some (units ''1000'')))) = 182
   \<and> length (days (buildSummary unaryKey 1000 initialStore (Some (units ''abc'')))) = 84"
proof -
  have "weeksOf (Some (units ''-1'')) = 1" "weeksOf (Some (units ''1'')) = 1"
    by (simp_all add: weeksOf_def parseInt_eval clamp_def)
  then show ?thesis
    by (simp add: buildSummary_weeks buildSummary_length weeksOf_examples parseInt_examples
        clamp_def)
qed

section \<open>Meal logging and the macro counters\<close>

lemma isInteger_iff: "isInteger x \<longleftrightarrow> x \<in> \<int>"
  by (auto simp: isInteger_def Ints_def)

lemma isInteger_mathRound: "isInteger (mathRound x)"
  by (simp add: isInteger_def mathRound_def)

lemma isInteger_add: "isInteger x \<Longrightarrow> isInteger y \<Longrightarrow> isInteger (x + y)"
  by (simp add: isInteger_iff)

lemma mathRound_nonneg: "0 \<le> x \<Longrightarrow> 0 \<le> mathRound x"
  by (simp add: mathRound_def)

lemma roundOrZero_nonneg: "fieldNonneg x \<Longrightarrow> 0 \<le> roundOrZero x"
  by (cases x) (simp_all add: roundOrZero_def mathRound_nonneg)

lemma macrosInteger_zero: "macrosInteger zeroMacros"
  by (simp add: macrosInteger_def zeroMacros_def isInteger_def)

lemma macrosNonneg_zero: "macrosNonneg zeroMacros"
  by (simp add: macrosNonneg_def zeroMacros_def)

lemma macrosInteger_fold:
  "macrosInteger acc \<Longrightarrow> \<forall>m \<in> set ms. macrosInteger (macros m) \<Longrightarrow>
     macrosInteger (foldl addMeal acc ms)"
proof (induction ms arbitrary: acc)
  case Nil
  then show ?case by simp
next
  case (Cons m ms)
  from Cons.prems have "macrosInteger (addMeal acc m)"
    by (simp add: macrosInteger_def addMeal_def isInteger_add)
  with Cons show ?case
    by simp
qed

lemma macrosNonneg_fold:
  "macrosNonneg acc \<Longrightarrow> \<forall>m \<in> set ms. macrosNonneg (macros m) \<Longrightarrow>
     macrosNonneg (foldl addMeal acc ms)"
proof (induction ms arbitrary: acc)
  case Nil
  then show ?case by simp
next
  case (Cons m ms)
  from Cons.prems have "macrosNonneg (addMeal acc m)"
    by (simp add: macrosNonneg_def addMeal_def)
  with Cons show ?case
    by simp
qed

lemma totals_integer:
  assumes "\<forall>m \<in> storedMeals st. macrosInteger (macros m)"
  shows "macrosInteger (totalsForDate st d)"
proof (cases "mealsByDate st d")
  case None
  then show ?thesis
    by (simp add: totalsForDate_def macrosInteger_zero)
next
  case (Some ms)
  with assms have "\<forall>m \<in> set ms. macrosInteger (macros m)"
    by (auto simp: storedMeals_def)
  with Some show ?thesis
    by (simp add: totalsForDate_def macrosInteger_fold macrosInteger_zero)
qed

lemma totals_nonneg:
  assumes "\<forall>m \<in> storedMeals st. macrosNonneg (macros m)"
  shows "macrosNonneg (totalsForDate st d)"
proof (cases "mealsByDate st d")
  case None
  then show ?thesis
    by (simp add: totalsForDate_def macrosNonneg_zero)
next
  case (Some ms)
  with assms have "\<forall>m \<in> set ms. macrosNonneg (macros m)"
    by (auto simp: storedMeals_def)
  with Some show ?thesis
    by (simp add: totalsForDate_def macrosNonneg_fold macrosNonneg_zero)
qed

text \<open>What an accepted request does, with the new item named.\<close>

lemma logMeal_accepted:
  assumes "logMeal newId now st body = Inr (st', r)"
  obtains d ty mc where
    "in_date body = Some d" "in_type body = Some ty" "in_macros body = Some mc"
    "d \<noteq> []" "ty \<noteq> []"
    "macros (res_item r) =
       \<lparr>caloriesKcal = roundOrZero (in_caloriesKcal mc),
        proteinG = roundOrZero (in_proteinG mc),
        carbsG = roundOrZero (in_carbsG mc),
        fatG = roundOrZero (in_fatG mc),
        fiberG = roundOrZero (in_fiberG mc)\<rparr>"
    "st' = st\<lparr>mealsByDate := (mealsByDate st)(d \<mapsto> res_item r # mealsOn st d)\<rparr>"
    "res_totals r = totalsForDate st' d"
  using assms
  by (auto simp: logMeal_def Let_def mealsOn_def split: option.splits if_splits)

lemma storedMeals_after:
  "storedMeals (st\<lparr>mealsByDate := (mealsByDate st)(d \<mapsto> item # mealsOn st d)\<rparr>)
     \<subseteq> insert item (storedMeals st)"
  by (auto simp: storedMeals_def mealsOn_def split: option.splits if_splits)

lemma mealsOn_stored: "m \<in> set (mealsOn st d) \<Longrightarrow> m \<in> storedMeals st"
  by (cases "mealsByDate st d") (auto simp: mealsOn_def storedMeals_def)

lemma roundOrZero_rounded: "roundOrZero x = rounded x"
proof (cases x)
  case None
  then show ?thesis
    by (simp add: roundOrZero_def rounded_def mathRound_integers)
next
  case (Some v)
  then show ?thesis
    by (simp add: roundOrZero_def rounded_def mathRound_def)
qed

lemma foldl_addMeal_fields:
  "caloriesKcal (foldl addMeal acc ms) = caloriesKcal acc + fieldSum caloriesKcal ms
   \<and> proteinG (foldl addMeal acc ms) = proteinG acc + fieldSum proteinG ms
   \<and> carbsG (foldl addMeal acc ms) = carbsG acc + fieldSum carbsG ms
   \<and> fatG (foldl addMeal acc ms) = fatG acc + fieldSum fatG ms
   \<and> fiberG (foldl addMeal acc ms) = fiberG acc + fieldSum fiberG ms"
  by (induction ms arbitrary: acc) (simp_all add: fieldSum_def addMeal_def)

lemma totalsForDate_sums: "totalsForDate st d = sumsOf (mealsOn st d)"
proof -
  have "foldl addMeal zeroMacros ms = sumsOf ms" for ms
    using foldl_addMeal_fields [of zeroMacros ms]
    by (intro macroSet.equality) (simp_all add: sumsOf_def zeroMacros_def)
  then show ?thesis
    by (simp add: totalsForDate_def mealsOn_def)
qed

lemma abs_fieldSum: "\<bar>fieldSum f ms\<bar> \<le> fieldAbsSum f ms"
proof (induction ms)
  case Nil
  then show ?case
    by (simp add: fieldSum_def fieldAbsSum_def)
next
  case (Cons m ms)
  have "\<bar>f (macros m) + fieldSum f ms\<bar> \<le> \<bar>f (macros m)\<bar> + \<bar>fieldSum f ms\<bar>"
    by (rule abs_triangle_ineq)
  with Cons show ?case
    by (simp add: fieldSum_def fieldAbsSum_def)
qed

lemma sums_safe: "sumsExact ms \<Longrightarrow> macrosSafe (sumsOf ms)"
  using abs_fieldSum [of caloriesKcal ms] abs_fieldSum [of proteinG ms]
    abs_fieldSum [of carbsG ms] abs_fieldSum [of fatG ms] abs_fieldSum [of fiberG ms]
  by (simp add: sumsExact_def macrosSafe_def sumsOf_def)

subsection \<open>The goal written by onboarding\<close>

lemma mathRound_unique:
  "of_int n \<le> x + 1 / 2 \<Longrightarrow> x + 1 / 2 < of_int n + 1 \<Longrightarrow> mathRound x = of_int n"
proof -
  assume "of_int n \<le> x + 1 / 2" and "x + 1 / 2 < of_int n + 1"
  then have "\<lfloor>x + 1 / 2\<rfloor> = n"
    by (rule floor_unique)
  then show ?thesis
    by (simp add: mathRound_def)
qed

lemma bootstrap_goals:
  "goals (user (fst (bootstrap fmul fdiv st body)))
     = Some \<lparr>caloriesKcal = mathRound (plan_caloriesKcal (snd (bootstrap fmul fdiv st body))),
             proteinG = mathRound (plan_proteinG (snd (bootstrap fmul fdiv st body))),
             carbsG = mathRound (plan_carbsG (snd (bootstrap fmul fdiv st body))),
             fatG = mathRound (plan_fatG (snd (bootstrap fmul fdiv st body))),
             fiberG = mathRound (plan_fiberG (snd (bootstrap fmul fdiv st body)))\<rparr>"
  by (simp add: bootstrap_def Let_def)

lemma bootstrap_plan:
  "\<exists>g. snd (bootstrap fmul fdiv st body) = fabricatePlan fmul g (weightKgOf fdiv body)"
  by (auto simp: bootstrap_def Let_def)

lemma fabricatePlan_fixed:
  "0 \<le> plan_carbsG (fabricatePlan fmul g w) \<and> plan_fiberG (fabricatePlan fmul g w) = 30"
  by (simp add: fabricatePlan_def Let_def)

lemma fabricatePlan_nonneg:
  assumes "signKeeping fmul" and "0 \<le> w"
  shows "0 \<le> plan_caloriesKcal (fabricatePlan fmul g w)
    \<and> 0 \<le> plan_proteinG (fabricatePlan fmul g w) \<and> 0 \<le> plan_fatG (fabricatePlan fmul g w)"
proof -
  from assms have pos: "0 \<le> mathRound (fmul a b)" if "0 \<le> a" "0 \<le> b" for a b
    using that by (simp add: signKeeping_def mathRound_nonneg)
  from assms(2) have m: "0 \<le> mathRound (fmul w 30)"
    by (simp add: pos)
  then have "0 \<le> mathRound (fmul (mathRound (fmul w 30)) (115 / 100))"
    and "0 \<le> mathRound (fmul (mathRound (fmul w 30)) (80 / 100))"
    by (simp_all add: pos)
  with m assms(2) show ?thesis
    by (simp add: fabricatePlan_def Let_def pos)
qed

lemma weightKgOf_nonneg:
  assumes "signKeeping fdiv" and "weightNonneg body"
  shows "0 \<le> weightKgOf fdiv body"
proof (cases "boot_weight body")
  case None
  then show ?thesis
    by (simp add: weightKgOf_def)
next
  case (Some w)
  with assms(2) have "fieldNonneg (weight_value w)"
    by (simp add: weightNonneg_def)
  then have n: "0 \<le> numberOr (weight_value w) dflt" if "0 \<le> dflt" for dflt
    using that by (cases "weight_value w") (simp_all add: numberOr_def)
  from assms(1) n [of 154]
  have "0 \<le> fdiv (numberOr (weight_value w) 154) (220462262 / 100000000)"
    by (simp add: signKeeping_def)
  with Some n [of 70] show ?thesis
    by (simp add: weightKgOf_def)
qed

lemma bootstrap_goal_integer:
  "\<exists>g. goals (user (fst (bootstrap fmul fdiv st body))) = Some g
     \<and> macrosInteger g \<and> 0 \<le> carbsG g \<and> fiberG g = 30"
proof -
  obtain pg where p: "snd (bootstrap fmul fdiv st body)
      = fabricatePlan fmul pg (weightKgOf fdiv body)"
    using bootstrap_plan by blast
  have "isInteger 30"
    by (simp add: isInteger_def)
  then show ?thesis
    using fabricatePlan_fixed [of fmul pg "weightKgOf fdiv body"]
    by (simp add: bootstrap_goals p macrosInteger_def isInteger_mathRound mathRound_nonneg
        mathRound_integers)
qed

lemma bootstrap_goal_nonneg:
  assumes "signKeeping fmul" and "signKeeping fdiv" and "weightNonneg body"
  shows "\<exists>g. goals (user (fst (bootstrap fmul fdiv st body))) = Some g \<and> macrosNonneg g"
proof -
  obtain pg where p: "snd (bootstrap fmul fdiv st body)
      = fabricatePlan fmul pg (weightKgOf fdiv body)"
    using bootstrap_plan by blast
  have "0 \<le> weightKgOf fdiv body"
    using assms(2,3) by (rule weightKgOf_nonneg)
  with assms(1) show ?thesis
    using fabricatePlan_fixed [of fmul pg "weightKgOf fdiv body"]
      fabricatePlan_nonneg [of fmul "weightKgOf fdiv body" pg]
    by (simp add: bootstrap_goals p macrosNonneg_def mathRound_nonneg)
qed

lemma bootstrap_meals:
  "mealsByDate (fst (bootstrap fmul fdiv st body)) = mealsByDate st"
  by (simp add: bootstrap_def Let_def)

lemma initialStore_meals: "storedMeals initialStore = {}"
  by (simp add: storedMeals_def initialStore_def)

lemma initialGoals_ok: "macrosInteger initialGoals \<and> macrosNonneg initialGoals"
  by (simp add: macrosInteger_def macrosNonneg_def initialGoals_def isInteger_def)

lemma refundLog_value:
  "refundLog =
     Inr (initialStore\<lparr>mealsByDate :=
            [''2025-03-01'' \<mapsto>
               [\<lparr>meal_id = ''meal_2'', meal_type = ''Snack'', title = ''Meal'',
                 imageAbsoluteUrl = None,
                 macros = \<lparr>caloriesKcal = - 100, proteinG = 3, carbsG = 0, fatG = 0,
                            fiberG = - 2\<rparr>,
                 createdAt = ''2025-03-01T13:00:00.000Z''\<rparr>]]\<rparr>,
          \<lparr>res_id = ''meal_2'', res_accepted = True,
           res_item =
             \<lparr>meal_id = ''meal_2'', meal_type = ''Snack'', title = ''Meal'',
              imageAbsoluteUrl = None,
              macros = \<lparr>caloriesKcal = - 100, proteinG = 3, carbsG = 0, fatG = 0,
                         fiberG = - 2\<rparr>,
              createdAt = ''2025-03-01T13:00:00.000Z''\<rparr>,
           res_totals = \<lparr>caloriesKcal = - 100, proteinG = 3, carbsG = 0, fatG = 0,
                           fiberG = - 2\<rparr>\<rparr>)"
  by (simp add: refundLog_def refundBody_def logMeal_def initialStore_def roundOrZero_def
      totalsForDate_def addMeal_def zeroMacros_def Let_def mathRound_integers mathRound_halves)

text \<open>
  C5, as the specification states it, fails: the meal route accepts a payload with
  negative macro values, rounds them and stores them as they are. With calories \<open>-100\<close>
  and fiber \<open>-2.5\<close> on an empty store, the stored meal and the totals of the day have
  calories \<open>-100\<close> and fiber \<open>-2\<close>.
\<close>

theorem negative_macros_stored:
  "\<not> isl refundLog
   \<and> caloriesKcal (macros (res_item (snd (projr refundLog)))) = - 100
   \<and> fiberG (macros (res_item (snd (projr refundLog)))) = - 2
   \<and> \<not> macrosNonneg (macros (res_item (snd (projr refundLog))))
   \<and> \<not> macrosNonneg (res_totals (snd (projr refundLog)))
   \<and> \<not> macrosNonneg (totalsForDate (fst (projr refundLog)) ''2025-03-01'')"
  by (simp add: refundLog_value macrosNonneg_def totalsForDate_def addMeal_def zeroMacros_def)

text \<open>
  C5, amended. For every accepted meal payload whose macro fields are finite numbers or
  absent:
  \<^item> each of the five fields of the stored and returned meal is the payload value rounded
    to the nearest integer, a half upwards, and 0 when absent; so it is an integer, and it
    is non-negative when the payload's fields are;
  \<^item> the request puts that meal in front of the meals of its date and changes nothing else
    of the meal log, and it does not change the goal;
  \<^item> the returned totals are the totals of that date; when the meals stored before are
    integer, so are the meals stored afterwards, and on every date whose absolute values
    add up to \<open>2^53\<close> at most in each field the totals are the field-wise sums of the
    date's meals, integer and within \<open>2^53\<close>; when the meals stored before and the new
    meal are non-negative, so are the meals stored afterwards and these totals;
  \<^item> the goal is integer: the goal the store starts with is 2200, 100, 275, 70, 30, and a
    goal written by onboarding, whose plan arithmetic is finite, has five integer fields
    with carbs at least 0 and fiber 30; all its fields are non-negative when the weight
    is not negative.
\<close>

theorem logMeal_macros:
  assumes "logMeal newId now st body = Inr (st', r)"
  shows "(\<exists>d mc. in_date body = Some d \<and> in_macros body = Some mc
            \<and> macros (res_item r) =
                \<lparr>caloriesKcal = rounded (in_caloriesKcal mc),
                 proteinG = rounded (in_proteinG mc),
                 carbsG = rounded (in_carbsG mc),
                 fatG = rounded (in_fatG mc),
                 fiberG = rounded (in_fiberG mc)\<rparr>
            \<and> (payloadNonneg mc \<longrightarrow> macrosNonneg (macros (res_item r)))
            \<and> mealsByDate st' = (mealsByDate st)(d \<mapsto> res_item r # mealsOn st d)
            \<and> res_totals r = totalsForDate st' d)
    \<and> macrosInteger (macros (res_item r))
    \<and> user st' = user st
    \<and> ((\<forall>m \<in> storedMeals st. macrosInteger (macros m)) \<longrightarrow>
         (\<forall>m \<in> storedMeals st'. macrosInteger (macros m))
         \<and> (\<forall>d. sumsExact (mealsOn st' d) \<longrightarrow>
               totalsForDate st' d = sumsOf (mealsOn st' d)
               \<and> macrosInteger (totalsForDate st' d)
               \<and> macrosSafe (totalsForDate st' d)))
    \<and> ((\<forall>m \<in> storedMeals st. macrosNonneg (macros m))
         \<and> macrosNonneg (macros (res_item r)) \<longrightarrow>
         (\<forall>m \<in> storedMeals st'. macrosNonneg (macros m))
         \<and> (\<forall>d. sumsExact (mealsOn st' d) \<longrightarrow> macrosNonneg (totalsForDate st' d)))
    \<and> goals (user initialStore) = Some initialGoals
    \<and> macrosInteger initialGoals \<and> macrosNonneg initialGoals
    \<and> (\<exists>g. goals (user (fst (bootstrap fmul fdiv st0 boot))) = Some g
          \<and> macrosInteger g \<and> 0 \<le> carbsG g \<and> fiberG g = 30
          \<and> (signKeeping fmul \<and> signKeeping fdiv \<and> weightNonneg boot \<longrightarrow> macrosNonneg g))"
proof -
  from assms obtain d ty mc where
    d: "in_date body = Some d"
    and mc: "in_macros body = Some mc"
    and item: "macros (res_item r) =
       \<lparr>caloriesKcal = roundOrZero (in_caloriesKcal mc),
        proteinG = roundOrZero (in_proteinG mc),
        carbsG = roundOrZero (in_carbsG mc),
        fatG = roundOrZero (in_fatG mc),
        fiberG = roundOrZero (in_fiberG mc)\<rparr>"
    and st': "st' = st\<lparr>mealsByDate := (mealsByDate st)(d \<mapsto> res_item r # mealsOn st d)\<rparr>"
    and tot: "res_totals r = totalsForDate st' d"
    by (rule logMeal_accepted)
  have sub: "storedMeals st' \<subseteq> insert (res_item r) (storedMeals st)"
    unfolding st' by (rule storedMeals_after)
  have nn_item: "macrosNonneg (macros (res_item r))" if "payloadNonneg mc"
    using that by (simp add: item macrosNonneg_def payloadNonneg_def roundOrZero_nonneg)
  have log: "mealsByDate st' = (mealsByDate st)(d \<mapsto> res_item r # mealsOn st d)"
    by (simp add: st')
  from d mc item nn_item log tot
  have one: "\<exists>d mc. in_date body = Some d \<and> in_macros body = Some mc
      \<and> macros (res_item r) =
          \<lparr>caloriesKcal = rounded (in_caloriesKcal mc),
           proteinG = rounded (in_proteinG mc),
           carbsG = rounded (in_carbsG mc),
           fatG = rounded (in_fatG mc),
           fiberG = rounded (in_fiberG mc)\<rparr>
      \<and> (payloadNonneg mc \<longrightarrow> macrosNonneg (macros (res_item r)))
      \<and> mealsByDate st' = (mealsByDate st)(d \<mapsto> res_item r # mealsOn st d)
      \<and> res_totals r = totalsForDate st' d"
    by (auto simp: roundOrZero_rounded)
  have int_item: "macrosInteger (macros (res_item r))"
    by (simp add: item macrosInteger_def roundOrZero_def isInteger_mathRound)
  have usr: "user st' = user st"
    by (simp add: st')
  have int_all: "(\<forall>m \<in> storedMeals st'. macrosInteger (macros m))
      \<and> (\<forall>d. sumsExact (mealsOn st' d) \<longrightarrow>
            totalsForDate st' d = sumsOf (mealsOn st' d)
            \<and> macrosInteger (totalsForDate st' d) \<and> macrosSafe (totalsForDate st' d))"
    if old: "\<forall>m \<in> storedMeals st. macrosInteger (macros m)"
  proof -
    from sub old int_item have new: "\<forall>m \<in> storedMeals st'. macrosInteger (macros m)"
      by auto
    then have "macrosInteger (totalsForDate st' d)" for d
      by (rule totals_integer)
    moreover have "macrosSafe (totalsForDate st' d)" if "sumsExact (mealsOn st' d)" for d
      using that by (simp add: totalsForDate_sums sums_safe)
    ultimately show ?thesis
      using new by (simp add: totalsForDate_sums)
  qed
  have nn_all: "(\<forall>m \<in> storedMeals st'. macrosNonneg (macros m))
      \<and> (\<forall>d. sumsExact (mealsOn st' d) \<longrightarrow> macrosNonneg (totalsForDate st' d))"
    if old: "(\<forall>m \<in> storedMeals st. macrosNonneg (macros m))
      \<and> macrosNonneg (macros (res_item r))"
  proof -
    from sub old have new: "\<forall>m \<in> storedMeals st'. macrosNonneg (macros m)"
      by auto
    then have "macrosNonneg (totalsForDate st' d)" for d
      by (rule totals_nonneg)
    with new show ?thesis
      by simp
  qed
  have start: "goals (user initialStore) = Some initialGoals"
    by (simp add: initialStore_def)
  obtain g where g: "goals (user (fst (bootstrap fmul fdiv st0 boot))) = Some g"
    "macrosInteger g" "0 \<le> carbsG g" "fiberG g = 30"
    using bootstrap_goal_integer by blast
  have "macrosNonneg g" if "signKeeping fmul \<and> signKeeping fdiv \<and> weightNonneg boot"
    using that bootstrap_goal_nonneg [of fmul fdiv boot st0] g(1) by auto
  with g have boot: "\<exists>g. goals (user (fst (bootstrap fmul fdiv st0 boot))) = Some g
      \<and> macrosInteger g \<and> 0 \<le> carbsG g \<and> fiberG g = 30
      \<and> (signKeeping fmul \<and> signKeeping fdiv \<and> weightNonneg boot \<longrightarrow> macrosNonneg g)"
    by blast
  from one int_item usr int_all nn_all start initialGoals_ok boot show ?thesis
    by blast
qed

lemma lunchLog_value:
  "logMeal ''meal_3'' ''2025-03-01T12:30:00.000Z'' initialStore lunchBody
     = Inr (initialStore\<lparr>mealsByDate :=
              [''2025-03-01'' \<mapsto>
                 [\<lparr>meal_id = ''meal_3'', meal_type = ''Lunch'', title = ''Bowl'',
                   imageAbsoluteUrl = None,
                   macros = \<lparr>caloriesKcal = 521, proteinG = 38, carbsG = 62, fatG = 12,
                              fiberG = 0\<rparr>,
                   createdAt = ''2025-03-01T12:30:00.000Z''\<rparr>]]\<rparr>,
            \<lparr>res_id = ''meal_3'', res_accepted = True,
             res_item =
               \<lparr>meal_id = ''meal_3'', meal_type = ''Lunch'', title = ''Bowl'',
                imageAbsoluteUrl = None,
                macros = \<lparr>caloriesKcal = 521, proteinG = 38, carbsG = 62, fatG = 12,
                           fiberG = 0\<rparr>,
                createdAt = ''2025-03-01T12:30:00.000Z''\<rparr>,
             res_totals = \<lparr>caloriesKcal = 521, proteinG = 38, carbsG = 62, fatG = 12,
                             fiberG = 0\<rparr>\<rparr>)"
  by (simp add: lunchBody_def logMeal_def initialStore_def roundOrZero_def
      totalsForDate_def addMeal_def zeroMacros_def Let_def mathRound_integers mathRound_halves)

lemma gainBody_goal:
  "goals (user (fst (bootstrap (*) (/) initialStore gainBody)))
     = Some \<lparr>caloriesKcal = 2415, proteinG = 126, carbsG = 352, fatG = 56, fiberG = 30\<rparr>"
proof -
  have "mathRound (1407 / 4) = 352"
    using mathRound_unique [of 352 "1407 / 4"] by simp
  then show ?thesis
    by (simp add: bootstrap_goals bootstrap_def fabricatePlan_def weightKgOf_def numberOr_def
        gainBody_def Let_def mathRound_integers)
qed

theorem logMeal_macros_witness:
  "logMeal ''meal_3'' ''2025-03-01T12:30:00.000Z'' initialStore lunchBody
     = Inr (initialStore\<lparr>mealsByDate :=
              [''2025-03-01'' \<mapsto>
                 [\<lparr>meal_id = ''meal_3'', meal_type = ''Lunch'', title = ''Bowl'',
                   imageAbsoluteUrl = None,
                   macros = \<lparr>caloriesKcal = 521, proteinG = 38, carbsG = 62, fatG = 12,
                              fiberG = 0\<rparr>,
                   createdAt = ''2025-03-01T12:30:00.000Z''\<rparr>]]\<rparr>,
            \<lparr>res_id = ''meal_3'', res_accepted = True,
             res_item =
               \<lparr>meal_id = ''meal_3'', meal_type = ''Lunch'', title = ''Bowl'',
                imageAbsoluteUrl = None,
                macros = \<lparr>caloriesKcal = 521, proteinG = 38, carbsG = 62, fatG = 12,
                           fiberG = 0\<rparr>,
                createdAt = ''2025-03-01T12:30:00.000Z''\<rparr>,
             res_totals = \<lparr>caloriesKcal = 521, proteinG = 38, carbsG = 62, fatG = 12,
                             fiberG = 0\<rparr>\<rparr>)
   \<and> storedMeals initialStore = {}
   \<and> in_macros lunchBody \<noteq> None \<and> payloadNonneg (the (in_macros lunchBody))
   \<and> macrosInteger \<lparr>caloriesKcal = 521, proteinG = 38, carbsG = 62, fatG = 12, fiberG = 0\<rparr>
   \<and> macrosNonneg \<lparr>caloriesKcal = 521, proteinG = 38, carbsG = 62, fatG = 12, fiberG = 0\<rparr>
   \<and> macrosSafe \<lparr>caloriesKcal = 521, proteinG = 38, carbsG = 62, fatG = 12, fiberG = 0\<rparr>
   \<and> weightNonneg gainBody
   \<and> goals (user (fst (bootstrap (*) (/) initialStore gainBody)))
       = Some \<lparr>caloriesKcal = 2415, proteinG = 126, carbsG = 352, fatG = 56, fiberG = 30\<rparr>
   \<and> macrosNonneg \<lparr>caloriesKcal = 2415, proteinG = 126, carbsG = 352, fatG = 56,
                     fiberG = 30\<rparr>"
proof -
  let ?item = "\<lparr>meal_id = ''meal_3'', meal_type = ''Lunch'', title = ''Bowl'',
      imageAbsoluteUrl = None,
      macros = \<lparr>caloriesKcal = 521, proteinG = 38, carbsG = 62, fatG = 12, fiberG = 0\<rparr>,
      createdAt = ''2025-03-01T12:30:00.000Z''\<rparr>"
  let ?st = "initialStore\<lparr>mealsByDate := [''2025-03-01'' \<mapsto> [?item]]\<rparr>"
  let ?tot = "\<lparr>caloriesKcal = 521, proteinG = 38, carbsG = 62, fatG = 12, fiberG = 0\<rparr>"
  let ?r = "\<lparr>res_id = ''meal_3'', res_accepted = True, res_item = ?item, res_totals = ?tot\<rparr>"
  have run: "logMeal ''meal_3'' ''2025-03-01T12:30:00.000Z'' initialStore lunchBody
      = Inr (?st, ?r)"
    by (rule lunchLog_value)
  have old: "\<forall>m \<in> storedMeals initialStore. macrosInteger (macros m)"
    "\<forall>m \<in> storedMeals initialStore. macrosNonneg (macros m)"
    by (simp_all add: initialStore_meals)
  have pay: "in_macros lunchBody \<noteq> None" "payloadNonneg (the (in_macros lunchBody))"
    by (simp_all add: lunchBody_def payloadNonneg_def)
  have item: "macrosNonneg (macros (res_item ?r))"
    by (simp add: macrosNonneg_def)
  have on: "mealsOn ?st ''2025-03-01'' = [?item]"
    by (simp add: mealsOn_def)
  have exact: "sumsExact (mealsOn ?st ''2025-03-01'')"
    by (simp add: on sumsExact_def fieldAbsSum_def)
  have tot: "totalsForDate ?st ''2025-03-01'' = ?tot"
    by (simp add: totalsForDate_def addMeal_def zeroMacros_def)
  have sk: "signKeeping (*)" "signKeeping (/)"
    by (simp_all add: signKeeping_def)
  have wn: "weightNonneg gainBody"
    by (simp add: weightNonneg_def gainBody_def)
  note inst = logMeal_macros [OF run, of "(*)" "(/)" initialStore gainBody]
  from inst old exact
  have "macrosInteger (totalsForDate ?st ''2025-03-01'')"
    and "macrosSafe (totalsForDate ?st ''2025-03-01'')"
    by blast+
  moreover from inst old item exact
  have "macrosNonneg (totalsForDate ?st ''2025-03-01'')"
    by blast
  moreover from inst sk wn gainBody_goal
  have "macrosNonneg \<lparr>caloriesKcal = 2415, proteinG = 126, carbsG = 352, fatG = 56,
      fiberG = 30\<rparr>"
    by auto
  ultimately show ?thesis
    using run pay wn gainBody_goal by (simp add: tot initialStore_meals)
qed

section \<open>Streaks\<close>

lemma mathRound_of_nat: "mathRound (of_nat n) = of_nat n"
  using mathRound_of_int [of "int n"] by simp

lemma trailingRun_snoc:
  "trailingRun (p @ [d]) = (if hit d then trailingRun p + 1 else 0)"
  by (simp add: trailingRun_def)

lemma suffix_run_le:
  assumes "suffix ys xs" and "list_all hit ys"
  shows "length ys \<le> trailingRun xs"
proof -
  from assms(1) obtain zs where xs: "xs = zs @ ys"
    by (auto simp: suffix_def)
  from assms(2) have "hit y" if "y \<in> set (rev ys)" for y
    using that by (simp add: list_all_iff)
  then have "takeWhile hit (rev ys @ rev zs) = rev ys @ takeWhile hit (rev zs)"
    by (rule takeWhile_append2)
  then show ?thesis
    by (simp add: trailingRun_def xs)
qed

lemma trailing_is_run:
  "hitRun xs (rev (takeWhile hit (rev xs)))"
proof -
  have "prefix (takeWhile hit (rev xs)) (rev xs)"
    by (metis prefixI takeWhile_dropWhile_id)
  then have "suffix (rev (takeWhile hit (rev xs))) xs"
    by (metis rev_rev_ident suffix_to_prefix)
  moreover have "list_all hit (rev (takeWhile hit (rev xs)))"
    by (auto simp: list_all_iff dest: set_takeWhileD)
  ultimately show ?thesis
    by (simp add: hitRun_def)
qed

lemma hitRun_snoc:
  assumes "hitRun (p @ [d]) ys"
  shows "hitRun p ys \<or> length ys \<le> trailingRun (p @ [d])"
proof -
  from assms have "sublist ys (p @ [d])" and all: "list_all hit ys"
    by (simp_all add: hitRun_def)
  then have "suffix ys (p @ [d]) \<or> sublist ys p"
    by (simp add: sublist_snoc)
  then show ?thesis
  proof
    assume "suffix ys (p @ [d])"
    with all show ?thesis
      by (simp add: suffix_run_le)
  next
    assume "sublist ys p"
    with all show ?thesis
      by (simp add: hitRun_def)
  qed
qed

lemma hitRun_extend: "hitRun p ys \<Longrightarrow> hitRun (p @ ds) ys"
  by (auto simp: hitRun_def sublist_append)

text \<open>
  The invariant of the forward loop: with a prefix \<open>p\<close> of the days visited, \<open>cur\<close> is
  the run of hits that ends \<open>p\<close> and \<open>best\<close> is the length of a longest run of \<open>p\<close>.
\<close>

lemma bestLoop_longest:
  assumes "cur = trailingRun p"
    and "\<exists>ys. hitRun p ys \<and> length ys = best"
    and "\<forall>ys. hitRun p ys \<longrightarrow> length ys \<le> best"
  shows "(\<exists>ys. hitRun (p @ ds) ys \<and> length ys = bestLoop ds cur best)
    \<and> (\<forall>ys. hitRun (p @ ds) ys \<longrightarrow> length ys \<le> bestLoop ds cur best)"
  using assms
proof (induction ds arbitrary: p cur best)
  case Nil
  then show ?case by simp
next
  case (Cons d ds)
  let ?p = "p @ [d]"
  show ?case
  proof (cases "hit d")
    case True
    let ?cur = "cur + 1" and ?best = "max best (cur + 1)"
    have c: "?cur = trailingRun ?p"
      using True Cons.prems(1) by (simp add: trailingRun_snoc)
    have ex: "\<exists>ys. hitRun ?p ys \<and> length ys = ?best"
    proof (cases "cur + 1 \<le> best")
      case True
      with Cons.prems(2) show ?thesis
        by (auto simp: max_def dest: hitRun_extend [where ds = "[d]"])
    next
      case False
      have "hitRun ?p (rev (takeWhile hit (rev ?p)))"
        by (rule trailing_is_run)
      moreover have "length (rev (takeWhile hit (rev ?p))) = ?cur"
        using c by (simp add: trailingRun_def)
      ultimately show ?thesis
        using False by (auto simp: max_def)
    qed
    have ub: "\<forall>ys. hitRun ?p ys \<longrightarrow> length ys \<le> ?best"
    proof (intro allI impI)
      fix ys
      assume "hitRun ?p ys"
      then have "hitRun p ys \<or> length ys \<le> trailingRun ?p"
        by (rule hitRun_snoc)
      with Cons.prems(3) c show "length ys \<le> ?best"
        by (auto simp: max_def)
    qed
    from Cons.IH [OF c ex ub] True show ?thesis
      by simp
  next
    case False
    have c: "0 = trailingRun ?p"
      using False by (simp add: trailingRun_snoc)
    have ex: "\<exists>ys. hitRun ?p ys \<and> length ys = best"
      using Cons.prems(2) by (auto dest: hitRun_extend [where ds = "[d]"])
    have ub: "\<forall>ys. hitRun ?p ys \<longrightarrow> length ys \<le> best"
    proof (intro allI impI)
      fix ys
      assume "hitRun ?p ys"
      then have "hitRun p ys \<or> length ys \<le> trailingRun ?p"
        by (rule hitRun_snoc)
      with Cons.prems(3) c show "length ys \<le> best"
        by auto
    qed
    from Cons.IH [OF c ex ub] False show ?thesis
      by simp
  qed
qed

lemma hitRun_Nil: "hitRun [] ys \<longleftrightarrow> ys = []"
  by (auto simp: hitRun_def)

lemma bestLoop_is_longest:
  "(\<exists>ys. hitRun ds ys \<and> length ys = bestLoop ds 0 0)
   \<and> (\<forall>ys. hitRun ds ys \<longrightarrow> length ys \<le> bestLoop ds 0 0)"
  using bestLoop_longest [of 0 "[]" 0 ds]
  by (simp add: trailingRun_def hitRun_Nil)

lemma trailingLoop_take:
  "n \<le> length ds \<Longrightarrow> trailingLoop ds n t = t + trailingRun (take n ds)"
proof (induction n arbitrary: t)
  case 0
  then show ?case
    by (simp add: trailingRun_def)
next
  case (Suc n)
  then have "take (Suc n) ds = take n ds @ [ds ! n]"
    by (simp add: take_Suc_conv_app_nth)
  then have "trailingRun (take (Suc n) ds)
      = (if hit (ds ! n) then trailingRun (take n ds) + 1 else 0)"
    by (simp only: trailingRun_snoc)
  with Suc show ?case
    by simp
qed

lemma trailingLoop_is_trailing: "trailingLoop ds (length ds) 0 = trailingRun ds"
  by (simp add: trailingLoop_take)

lemma trailing_le_best: "trailingLoop ds (length ds) 0 \<le> bestLoop ds 0 0"
proof -
  have "hitRun ds (rev (takeWhile hit (rev ds)))"
    by (rule trailing_is_run)
  with bestLoop_is_longest [of ds]
  have "length (rev (takeWhile hit (rev ds))) \<le> bestLoop ds 0 0"
    by blast
  then show ?thesis
    by (simp add: trailingLoop_is_trailing trailingRun_def)
qed

lemma buildSummary_current:
  "currentStreak (buildSummary dayKey today st weeks)
     = of_nat (trailingLoop (days (buildSummary dayKey today st weeks))
         (length (days (buildSummary dayKey today st weeks))) 0)"
  by (simp add: buildSummary_def Let_def mathRound_of_nat)

lemma buildSummary_best:
  "bestStreak (buildSummary dayKey today st weeks)
     = of_nat (bestLoop (days (buildSummary dayKey today st weeks)) 0 0)"
  by (simp add: buildSummary_def Let_def mathRound_of_nat)

lemma buildSummary_tiers:
  "earnedTiers (buildSummary dayKey today st weeks)
     = filter (\<lambda>t. t \<le> bestLoop (days (buildSummary dayKey today st weeks)) 0 0) BADGE_Tiers"
  by (simp add: buildSummary_def Let_def)

lemma buildSummary_hits:
  "hits7 (buildSummary dayKey today st weeks)
     = of_nat (length (filter hit (sliceLast 7 (days (buildSummary dayKey today st weeks)))))"
  "hits30 (buildSummary dayKey today st weeks)
     = of_nat (length (filter hit (sliceLast 30 (days (buildSummary dayKey today st weeks)))))"
  by (simp_all add: buildSummary_def Let_def mathRound_of_nat)

lemma unaryKey_values:
  "unaryKey 0 = []" "unaryKey 1 = ''d''" "unaryKey 2 = ''dd''" "unaryKey 3 = ''ddd''"
  "unaryKey 4 = ''dddd''" "unaryKey 5 = ''ddddd''" "unaryKey 6 = ''dddddd''"
  by (simp_all add: unaryKey_def eval_nat_numeral)

lemma weekStore_days:
  "days (buildSummary unaryKey 6 weekStore (Some (units ''1''))) =
     [\<lparr>date = [], hit = False, score = 0\<rparr>,
      \<lparr>date = ''d'', hit = True, score = 1\<rparr>,
      \<lparr>date = ''dd'', hit = True, score = 1\<rparr>,
      \<lparr>date = ''ddd'', hit = True, score = 1\<rparr>,
      \<lparr>date = ''dddd'', hit = False, score = 0\<rparr>,
      \<lparr>date = ''ddddd'', hit = True, score = 1\<rparr>,
      \<lparr>date = ''dddddd'', hit = True, score = 1\<rparr>]"
proof -
  have w: "weeksOf (Some (units ''1'')) = 1"
    by (simp add: weeksOf_def parseInt_eval clamp_def)
  have ds: "days (buildSummary unaryKey 6 weekStore (Some (units ''1'')))
      = map (\<lambda>i. dayStat weekStore (unaryKey (int i))) [0 ..< 7]"
    by (simp add: buildSummary_def w Let_def)
  have idx: "[0 ..< 7] = [0, 1, 2, 3, 4, 5, 6 :: nat]"
    by (simp add: upt_conv_Cons)
  have marked: "dayStat weekStore k = \<lparr>date = k, hit = True, score = 1\<rparr>"
    if "streakOverrides weekStore k = Some True" for k
    using that
    by (simp add: dayStat_overridden weekStore_def initialStore_def initialGoals_def
        totalsForDate_def zeroMacros_def goalCalories_def deviation_def jsDiv_def
        scoreCascade_def mathRound_numerals)
  have idle: "dayStat weekStore k = \<lparr>date = k, hit = False, score = 0\<rparr>"
    if "streakOverrides weekStore k = None" for k
    using that
    by (simp add: dayStat_def weekStore_def initialStore_def totalsForDate_def zeroMacros_def)
  have ov: "streakOverrides weekStore [] = None" "streakOverrides weekStore ''d'' = Some True"
    "streakOverrides weekStore ''dd'' = Some True"
    "streakOverrides weekStore ''ddd'' = Some True"
    "streakOverrides weekStore ''dddd'' = None"
    "streakOverrides weekStore ''ddddd'' = Some True"
    "streakOverrides weekStore ''dddddd'' = Some True"
    by (simp_all add: weekStore_def unaryKey_values)
  show ?thesis
    by (simp add: ds idx unaryKey_values marked idle ov)
qed

subsection \<open>Best and current streak\<close>

text \<open>
  C6. For every sequence of classified days the best streak is at least the current
  streak. The forward loop computes the length of a longest run of consecutive hit days
  of the window (some run has that length and no run is longer); the backward loop
  computes the length of the run that ends at the last day. The summary reports these
  two values.
\<close>

theorem best_ge_current:
  "trailingLoop ds (length ds) 0 \<le> bestLoop ds 0 0
   \<and> trailingLoop ds (length ds) 0 = trailingRun ds
   \<and> (\<exists>ys. hitRun ds ys \<and> length ys = bestLoop ds 0 0)
   \<and> (\<forall>ys. hitRun ds ys \<longrightarrow> length ys \<le> bestLoop ds 0 0)
   \<and> (let r = buildSummary dayKey today st weeks
      in currentStreak r \<le> bestStreak r
         \<and> currentStreak r = of_nat (trailingRun (days r))
         \<and> (\<exists>ys. hitRun (days r) ys \<and> of_nat (length ys) = bestStreak r)
         \<and> (\<forall>ys. hitRun (days r) ys \<longrightarrow> of_nat (length ys) \<le> bestStreak r))"
proof -
  let ?r = "buildSummary dayKey today st weeks"
  have 1: "currentStreak ?r \<le> bestStreak ?r"
    by (simp add: buildSummary_current buildSummary_best trailing_le_best)
  have 2: "currentStreak ?r = of_nat (trailingRun (days ?r))"
    by (simp add: buildSummary_current trailingLoop_is_trailing)
  have 3: "\<exists>ys. hitRun (days ?r) ys \<and> of_nat (length ys) = bestStreak ?r"
    using bestLoop_is_longest [of "days ?r"] by (auto simp: buildSummary_best)
  have 4: "\<forall>ys. hitRun (days ?r) ys \<longrightarrow> of_nat (length ys) \<le> bestStreak ?r"
    using bestLoop_is_longest [of "days ?r"] by (auto simp: buildSummary_best)
  from 1 2 3 4 trailing_le_best [of ds] trailingLoop_is_trailing [of ds]
    bestLoop_is_longest [of ds]
  show ?thesis
    unfolding Let_def by blast
qed

theorem best_ge_current_witness:
  "hitRun sampleDays (take 3 sampleDays)
   \<and> length (take 3 sampleDays) \<le> bestLoop sampleDays 0 0
   \<and> bestLoop sampleDays 0 0 = 3
   \<and> trailingLoop sampleDays (length sampleDays) 0 = 2
   \<and> currentStreak (buildSummary unaryKey 6 weekStore (Some (units ''1''))) = 2
   \<and> bestStreak (buildSummary unaryKey 6 weekStore (Some (units ''1''))) = 3
   \<and> currentStreak (buildSummary unaryKey 6 weekStore (Some (units ''1'')))
       \<le> bestStreak (buildSummary unaryKey 6 weekStore (Some (units ''1'')))"
proof -
  let ?r = "buildSummary unaryKey 6 weekStore (Some (units ''1''))"
  have "sublist (take 3 sampleDays) (take 3 sampleDays @ drop 3 sampleDays)"
    by (rule sublist_append_rightI)
  then have run: "hitRun sampleDays (take 3 sampleDays)"
    by (simp add: hitRun_def sampleDays_def)
  have b: "bestLoop sampleDays 0 0 = 3"
    and t: "trailingLoop sampleDays (length sampleDays) 0 = 2"
    by (simp_all add: sampleDays_def eval_nat_numeral)
  have c: "currentStreak ?r = 2" and m: "bestStreak ?r = 3"
    by (simp_all add: buildSummary_current buildSummary_best weekStore_days eval_nat_numeral)
  from best_ge_current [of sampleDays unaryKey 6 weekStore "Some (units ''1'')"] run
  have "length (take 3 sampleDays) \<le> bestLoop sampleDays 0 0"
    and "currentStreak ?r \<le> bestStreak ?r"
    unfolding Let_def by blast+
  with run b t c m show ?thesis
    by blast
qed

subsection \<open>Earned tiers\<close>

lemma bestLoop_all_hit:
  "list_all hit ds \<Longrightarrow> cur \<le> best \<Longrightarrow> bestLoop ds cur best = max best (cur + length ds)"
  by (induction ds arbitrary: cur best) (auto simp: max_def)

lemma bestLoop_all_miss:
  "list_all (\<lambda>d. \<not> hit d) ds \<Longrightarrow> bestLoop ds cur best = best"
  by (induction ds arbitrary: cur) auto

lemma trailingRun_all_miss:
  "list_all (\<lambda>d. \<not> hit d) ds \<Longrightarrow> trailingRun ds = 0"
proof -
  assume "list_all (\<lambda>d. \<not> hit d) ds"
  then have "\<forall>d \<in> set (rev ds). \<not> hit d"
    by (simp add: list_all_iff)
  then have "takeWhile hit (rev ds) = []"
    by (cases "rev ds") auto
  then show ?thesis
    by (simp add: trailingRun_def)
qed

lemma hits_all_miss:
  "list_all (\<lambda>d. \<not> hit d) ds \<Longrightarrow> filter hit (sliceLast n ds) = []"
  by (auto simp: sliceLast_def list_all_iff filter_empty_conv dest: in_set_dropD)

lemma tiers_all: "120 \<le> best \<Longrightarrow> filter (\<lambda>t. t \<le> best) BADGE_Tiers = BADGE_Tiers"
  by (simp add: BADGE_Tiers_def)

lemma tiers_none: "filter (\<lambda>t. t \<le> (0 :: nat)) BADGE_Tiers = []"
  by (simp add: BADGE_Tiers_def)

lemma marked_lookup:
  "j \<in> set js \<Longrightarrow> map_of (map (\<lambda>j. (f j, True)) js) (f j) = Some True"
  by (induction js) auto

lemma busyStore_all_hit:
  "list_all hit (days (buildSummary unaryKey 199 busyStore (Some (units ''20''))))"
proof -
  have w: "weeksOf (Some (units ''20'')) = 20"
    by (simp add: weeksOf_def parseInt_eval clamp_def)
  have "hit (dayStat busyStore (unaryKey (60 + int i)))" if "i < 140" for i
  proof -
    from that have "60 + i \<in> set [0 ..< 200]"
      by simp
    then have "map_of (map (\<lambda>j. (unaryKey (int j), True)) [0 ..< 200])
        (unaryKey (int (60 + i))) = Some True"
      by (rule marked_lookup)
    then show ?thesis
      by (simp add: dayStat_hit busyStore_def)
  qed
  then show ?thesis
    by (simp add: buildSummary_def w Let_def list_all_iff)
qed

lemma initialStore_all_miss:
  "list_all (\<lambda>d. \<not> hit d) (days (buildSummary dayKey today initialStore weeks))"
  by (simp add: buildSummary_def Let_def list_all_iff initialStore_day)

text \<open>
  C8. The earned tiers are the tier list 7, 14, 30, 60, 90, 120 filtered to the tiers
  that are at most the best streak. A window of 120 days or more in which every day is a
  hit earns all six; a window in which every day is a miss earns none, and its four
  counters are 0.
\<close>

theorem earnedTiers_filter:
  "BADGE_Tiers = [7, 14, 30, 60, 90, 120]
   \<and> (let r = buildSummary dayKey today st weeks
      in earnedTiers r = filter (\<lambda>t. of_nat t \<le> bestStreak r) BADGE_Tiers
         \<and> (120 \<le> length (days r) \<and> list_all hit (days r) \<longrightarrow>
              earnedTiers r = [7, 14, 30, 60, 90, 120])
         \<and> (list_all (\<lambda>d. \<not> hit d) (days r) \<longrightarrow>
              currentStreak r = 0 \<and> bestStreak r = 0 \<and> hits7 r = 0 \<and> hits30 r = 0
              \<and> earnedTiers r = []))"
proof -
  let ?r = "buildSummary dayKey today st weeks"
  let ?best = "bestLoop (days ?r) 0 0"
  have 1: "earnedTiers ?r = filter (\<lambda>t. of_nat t \<le> bestStreak ?r) BADGE_Tiers"
    by (simp add: buildSummary_tiers buildSummary_best)
  have 2: "earnedTiers ?r = [7, 14, 30, 60, 90, 120]"
    if "120 \<le> length (days ?r) \<and> list_all hit (days ?r)"
  proof -
    from that have "?best = length (days ?r)"
      by (simp add: bestLoop_all_hit)
    with that have "120 \<le> ?best"
      by simp
    then have "earnedTiers ?r = BADGE_Tiers"
      by (simp only: buildSummary_tiers tiers_all)
    then show ?thesis
      by (simp add: BADGE_Tiers_def)
  qed
  have 3: "currentStreak ?r = 0 \<and> bestStreak ?r = 0 \<and> hits7 ?r = 0 \<and> hits30 ?r = 0
      \<and> earnedTiers ?r = []"
    if miss: "list_all (\<lambda>d. \<not> hit d) (days ?r)"
  proof -
    from miss have b: "?best = 0"
      by (rule bestLoop_all_miss)
    from miss have t: "trailingLoop (days ?r) (length (days ?r)) 0 = 0"
      by (simp add: trailingLoop_is_trailing trailingRun_all_miss)
    from miss have h: "filter hit (sliceLast 7 (days ?r)) = []"
      "filter hit (sliceLast 30 (days ?r)) = []"
      by (rule hits_all_miss)+
    have e: "earnedTiers ?r = []"
      by (simp only: buildSummary_tiers b tiers_none)
    from b t h e show ?thesis
      by (simp add: buildSummary_current buildSummary_best buildSummary_hits)
  qed
  have 0: "BADGE_Tiers = [7, 14, 30, 60, 90, 120]"
    by (simp add: BADGE_Tiers_def)
  from 0 1 2 3 show ?thesis
    unfolding Let_def by blast
qed

theorem earnedTiers_filter_witness:
  "120 \<le> length (days (buildSummary unaryKey 199 busyStore (Some (units ''20''))))
   \<and> list_all hit (days (buildSummary unaryKey 199 busyStore (Some (units ''20''))))
   \<and> earnedTiers (buildSummary unaryKey 199 busyStore (Some (units ''20'')))
       = [7, 14, 30, 60, 90, 120]
   \<and> list_all (\<lambda>d. \<not> hit d) (days (buildSummary unaryKey 199 initialStore None))
   \<and> bestStreak (buildSummary unaryKey 199 initialStore None) = 0
   \<and> currentStreak (buildSummary unaryKey 199 initialStore None) = 0
   \<and> hits7 (buildSummary unaryKey 199 initialStore None) = 0
   \<and> hits30 (buildSummary unaryKey 199 initialStore None) = 0
   \<and> earnedTiers (buildSummary unaryKey 199 initialStore None) = []"
proof -
  let ?busy = "buildSummary unaryKey 199 busyStore (Some (units ''20''))"
  let ?idle = "buildSummary unaryKey 199 initialStore None"
  have w: "weeksOf (Some (units ''20'')) = 20"
    by (simp add: weeksOf_def parseInt_eval clamp_def)
  have len: "120 \<le> length (days ?busy)"
    by (simp add: buildSummary_length w)
  have all: "list_all hit (days ?busy)"
    by (rule busyStore_all_hit)
  have miss: "list_all (\<lambda>d. \<not> hit d) (days ?idle)"
    by (rule initialStore_all_miss)
  from earnedTiers_filter [of unaryKey 199 busyStore "Some (units ''20'')"] len all
  have 1: "earnedTiers ?busy = [7, 14, 30, 60, 90, 120]"
    unfolding Let_def by blast
  from earnedTiers_filter [of unaryKey 199 initialStore None] miss
  have 2: "currentStreak ?idle = 0 \<and> bestStreak ?idle = 0 \<and> hits7 ?idle = 0
      \<and> hits30 ?idle = 0 \<and> earnedTiers ?idle = []"
    unfolding Let_def by blast
  from len all miss 1 2 show ?thesis
    by blast
qed

end
